theory Spec2Isabelle
  imports Complex_Main
begin

section \<open>Banner configuration: the data model\<close>

text \<open>
  The configuration types follow the type declarations at the end of
  \<^verbatim>\<open>src/src/web/resources/app.js\<close> (\<^verbatim>\<open>SoftPityInterval\<close>,
  \<^verbatim>\<open>ProbabilityProgression\<close>, \<^verbatim>\<open>PoolConfig\<close>). Every numeric field is a
  JavaScript \<^verbatim>\<open>number\<close>, and a \<^verbatim>\<open>number\<close> read from a form field with
  \<^verbatim>\<open>parseInt\<close> or \<^verbatim>\<open>parseFloat\<close> may be \<^verbatim>\<open>NaN\<close>. So the records take the
  type \<open>'k\<close> of pull counts and the type \<open>'p\<close> of probabilities as parameters:
  \<^item> what the legacy page parses and posts has \<open>'k = int option\<close> and
    \<open>'p = real option\<close>, with \<open>None\<close> for \<^verbatim>\<open>NaN\<close> (an empty or unreadable
    field), which \<^verbatim>\<open>JSON.stringify\<close> posts as \<^verbatim>\<open>null\<close>;
  \<^item> what the draw engine consumes has \<open>'k = int\<close> and \<open>'p = real\<close>.

  A probability is a \<^typ>\<open>real\<close>: the model computes with exact numbers where the
  program computes with IEEE doubles, so statements about sums are made up to a
  tolerance. The infinities \<^verbatim>\<open>parseFloat\<close> can return are not modelled.
\<close>

datatype Rarity = Star5 | Star4 | Star3

record ('k, 'p) SoftPityInterval =
  start_pull :: 'k
  end_pull :: 'k
  increment :: 'p

record ('k, 'p) ProbabilityProgression =
  hard_pity_pull :: 'k
  hard_pity_rate :: 'p
  soft_pity :: "('k, 'p) SoftPityInterval list"

record 'p ProbabilitySettings =
  base_5star_rate :: 'p
  base_4star_rate :: 'p
  base_3star_rate :: 'p
  up_5star_rate :: 'p
  up_4star_rate :: 'p
  four_star_character_rate :: 'p

text \<open>
  The objects keyed by \<^verbatim>\<open>'5star' | '4star' | '3star'\<close> are flattened into one
  field per key. Item ids are numbers in the React editor and item names in the
  legacy page, so the type of ids is a parameter too.
\<close>

record ('a, 'k, 'p) PoolConfig =
  name :: string
  config_group :: string
  probability_settings :: "'p ProbabilitySettings"
  rate_up_item_ids_5star :: "'a list"
  rate_up_item_ids_4star :: "'a list"
  included_item_ids_5star :: "'a list"
  included_item_ids_4star :: "'a list"
  included_item_ids_3star :: "'a list"
  probability_progression_5star :: "('k, 'p) ProbabilityProgression"
  probability_progression_4star :: "('k, 'p) ProbabilityProgression"

type_synonym 'a BannerConfig = "('a, int, real) PoolConfig"

type_synonym stored_banner = "(string, int option, real option) PoolConfig"

section \<open>The legacy banner page: \<^verbatim>\<open>BannerManager\<close>\<close>

text \<open>
  \<^verbatim>\<open>class BannerManager\<close> of \<^verbatim>\<open>app.js\<close> keeps five JavaScript
  \<^verbatim>\<open>Set\<close>s of item names. A \<^verbatim>\<open>Set\<close> iterates in insertion order, so each
  is a list here: \<^verbatim>\<open>add\<close> appends a name that is not yet there, \<^verbatim>\<open>delete\<close>
  removes it, \<^verbatim>\<open>has\<close> is membership. The calls that only redraw the page
  (\<^verbatim>\<open>updateSelectedDisplay\<close>, \<^verbatim>\<open>updateIncludedItemsDisplay\<close>,
  \<^verbatim>\<open>filterIncludedItems\<close>, \<^verbatim>\<open>filterAvailableItems\<close>) change none of the
  five sets and are left out.
\<close>

record BannerManager =
  selected5StarItems :: "string list"
  selected4StarItems :: "string list"
  included5StarItems :: "string list"
  included4StarItems :: "string list"
  included3StarItems :: "string list"

definition set_add :: "'a \<Rightarrow> 'a list \<Rightarrow> 'a list" where
  "set_add x xs = (if x \<in> set xs then xs else xs @ [x])"

definition set_delete :: "'a \<Rightarrow> 'a list \<Rightarrow> 'a list" where
  "set_delete x xs = removeAll x xs"

text \<open>
  The form of the page, as \<^verbatim>\<open>validateForm\<close> and \<^verbatim>\<open>saveBanner\<close> read it with
  \<^verbatim>\<open>document.getElementById\<close>: one field per element id, holding what
  \<^verbatim>\<open>parseFloat\<close> or \<^verbatim>\<open>parseInt\<close> makes of the element's text (\<open>None\<close> is
  \<^verbatim>\<open>NaN\<close>), and one interval per \<^verbatim>\<open>.soft-pity-entry\<close> row, in document
  order, holding what \<^verbatim>\<open>parseInt\<close> makes of \<^verbatim>\<open>.soft-pity-start\<close> and
  \<^verbatim>\<open>.soft-pity-end\<close> and \<^verbatim>\<open>parseFloat\<close> of \<^verbatim>\<open>.soft-pity-increment\<close>. A row
  added with the button "add soft pity" starts with three empty fields.
  The template of a row (\<^verbatim>\<open>addSoftPityEntry\<close>) gives its inputs the attributes
  \<^verbatim>\<open>required\<close>, \<^verbatim>\<open>min\<close>, \<^verbatim>\<open>max\<close> and \<^verbatim>\<open>step\<close>. A browser may check
  them before it raises the submit event; \<^verbatim>\<open>validateForm\<close> does not look at them
  and the inputs of the React editor have none. They are not part of the model: a
  form holds any numbers, and \<^verbatim>\<open>NaN\<close>.
\<close>

record banner_form =
  bannerId :: string
  bannerName :: string
  base5StarRate :: "real option"
  base4StarRate :: "real option"
  up5StarRate :: "real option"
  up4StarRate :: "real option"
  hardPityPull :: "int option"
  hardPityRate :: "real option"
  softPityEntries :: "(int option, real option) SoftPityInterval list"

text \<open>
  \<^verbatim>\<open>String.prototype.trim\<close> on the ASCII white space and line terminators (a
  \<^typ>\<open>char\<close> is a byte; the white space beyond ASCII is not modelled).
\<close>

definition js_whitespace :: "char \<Rightarrow> bool" where
  "js_whitespace c = (c \<in> set [CHR '' '', CHR 0x09, CHR 0x0A, CHR 0x0B, CHR 0x0C, CHR 0x0D])"

definition trim :: "string \<Rightarrow> string" where
  "trim s = rev (dropWhile js_whitespace (rev (dropWhile js_whitespace s)))"

text \<open>
  JavaScript's comparisons of numbers: each is false as soon as one side is
  \<^verbatim>\<open>NaN\<close>. And \<^verbatim>\<open>x || 0\<close> for a number \<^verbatim>\<open>x\<close>: 0 when \<^verbatim>\<open>x\<close> is
  \<^verbatim>\<open>NaN\<close> (or 0), \<^verbatim>\<open>x\<close> otherwise.
\<close>

definition js_ge :: "int option \<Rightarrow> int option \<Rightarrow> bool" where
  "js_ge a b = (case (a, b) of (Some x, Some y) \<Rightarrow> x \<ge> y | _ \<Rightarrow> False)"

definition js_gt :: "int option \<Rightarrow> int option \<Rightarrow> bool" where
  "js_gt a b = (case (a, b) of (Some x, Some y) \<Rightarrow> x > y | _ \<Rightarrow> False)"

definition js_le :: "int option \<Rightarrow> int option \<Rightarrow> bool" where
  "js_le a b = (case (a, b) of (Some x, Some y) \<Rightarrow> x \<le> y | _ \<Rightarrow> False)"

definition or_zero :: "real option \<Rightarrow> real" where
  "or_zero v = (case v of None \<Rightarrow> 0 | Some x \<Rightarrow> x)"

text \<open>
  Every \<^verbatim>\<open>alert(...); return false;\<close> of \<^verbatim>\<open>validateForm\<close> is one constructor,
  in the order of the source; \<^verbatim>\<open>return true\<close> is \<open>Inr ()\<close>.
\<close>

datatype alert =
    NameRequired
  | Base5StarNegative
  | Base4StarNegative
  | Base3StarNegative
  | RateSumNotOne real
  | SoftPityStartNotBeforeEnd nat
  | HardPityNotAboveSoftPity int

text \<open>
  The loop \<^verbatim>\<open>for (let i = 0; i < softPityEntries.length; i++)\<close> of
  \<^verbatim>\<open>validateForm\<close> (lines 1092-1105): it returns at the first row with
  \<^verbatim>\<open>start >= end\<close> and otherwise carries \<^verbatim>\<open>maxSoftPityEnd\<close> along, which
  starts at 0 and is replaced when \<^verbatim>\<open>end > maxSoftPityEnd\<close>. A row whose start
  or end is \<^verbatim>\<open>NaN\<close> passes the first test, and a \<^verbatim>\<open>NaN\<close> end leaves
  \<^verbatim>\<open>maxSoftPityEnd\<close> as it is.
\<close>

fun soft_pity_loop ::
  "nat \<Rightarrow> (int option, real option) SoftPityInterval list \<Rightarrow> int \<Rightarrow> alert + int" where
  "soft_pity_loop i [] maxSoftPityEnd = Inr maxSoftPityEnd"
| "soft_pity_loop i (entry # rest) maxSoftPityEnd =
     (if js_ge (start_pull entry) (end_pull entry) then Inl (SoftPityStartNotBeforeEnd (i + 1))
      else soft_pity_loop (i + 1) rest
             (if js_gt (end_pull entry) (Some maxSoftPityEnd)
              then (case end_pull entry of Some e \<Rightarrow> e | None \<Rightarrow> maxSoftPityEnd)
              else maxSoftPityEnd))"

text \<open>
  \<^verbatim>\<open>validateForm()\<close> (lines 1054-1115). It is a method of the manager, so it
  takes the manager's state too; it reads the name, the two base rates (each
  with \<^verbatim>\<open>|| 0\<close>), the start and end of the soft-pity rows and the hard-pity
  pull, and nothing else.
\<close>

definition validateForm :: "BannerManager \<Rightarrow> banner_form \<Rightarrow> alert + unit" where
  "validateForm this form =
     (let name = trim (bannerName form) in
      if name = [] then Inl NameRequired
      else
        let base5Star = or_zero (base5StarRate form);
            base4Star = or_zero (base4StarRate form);
            base3Star = 1 - base5Star - base4Star
        in
        if base5Star < 0 then Inl Base5StarNegative
        else if base4Star < 0 then Inl Base4StarNegative
        else if base3Star < 0 then Inl Base3StarNegative
        else
          let totalRate = base5Star + base4Star + base3Star in
          if \<bar>totalRate - 1\<bar> > 1 / 100 then Inl (RateSumNotOne totalRate)
          else
            (case soft_pity_loop 0 (softPityEntries form) 0 of
               Inl a \<Rightarrow> Inl a
             | Inr maxSoftPityEnd \<Rightarrow>
                 if js_le (hardPityPull form) (Some maxSoftPityEnd)
                 then Inl (HardPityNotAboveSoftPity maxSoftPityEnd)
                 else Inr ()))"

text \<open>
  \<^verbatim>\<open>getSelectedUpItems(rarity)\<close> and \<^verbatim>\<open>getIncludedItems(rarity)\<close> join a set with
  commas; \<^verbatim>\<open>saveBanner\<close> splits the string again and drops the blank pieces
  (\<^verbatim>\<open>.split(',').filter(item => item.trim() !== '')\<close>). The rarity is the
  number the page passes (5, 4 or 3).
\<close>

fun join_comma :: "string list \<Rightarrow> string" where
  "join_comma [] = []"
| "join_comma [x] = x"
| "join_comma (x # y # ys) = x @ CHR '','' # join_comma (y # ys)"

fun split_comma :: "string \<Rightarrow> string list" where
  "split_comma [] = [[]]"
| "split_comma (c # cs) =
     (if c = CHR '','' then [] # split_comma cs
      else (case split_comma cs of
              [] \<Rightarrow> [[c]]
            | w # ws \<Rightarrow> (c # w) # ws))"

definition getSelectedUpItems :: "BannerManager \<Rightarrow> int \<Rightarrow> string" where
  "getSelectedUpItems this rarity =
     join_comma (if rarity = 5 then selected5StarItems this else selected4StarItems this)"

definition getIncludedItems :: "BannerManager \<Rightarrow> int \<Rightarrow> string" where
  "getIncludedItems this rarity =
     join_comma (if rarity = 5 then included5StarItems this
                 else if rarity = 4 then included4StarItems this
                 else included3StarItems this)"

definition nonblank_items :: "string \<Rightarrow> string list" where
  "nonblank_items s = filter (\<lambda>item. trim item \<noteq> []) (split_comma s)"

text \<open>
  The subtraction \<^verbatim>\<open>1 - a - b\<close> on numbers that may be \<^verbatim>\<open>NaN\<close>: the result
  is \<^verbatim>\<open>NaN\<close> as soon as one of them is.
\<close>

definition one_minus :: "real option \<Rightarrow> real option \<Rightarrow> real option" where
  "one_minus a b = (case (a, b) of (Some x, Some y) \<Rightarrow> Some (1 - x - y) | _ \<Rightarrow> None)"

text \<open>
  \<^verbatim>\<open>saveBanner()\<close> (lines 1118-1172) up to the request it sends: nothing is built
  unless \<^verbatim>\<open>validateForm()\<close> returned true. The numbers are parsed again from
  the fields, this time without \<^verbatim>\<open>|| 0\<close>, so a \<^verbatim>\<open>NaN\<close> is stored as it is.
  The banner object of the legacy page names three keys differently from
  \<^verbatim>\<open>PoolConfig\<close>: \<^verbatim>\<open>rate_up_items\<close>, \<^verbatim>\<open>included_items\<close> and
  \<^verbatim>\<open>_4star_role_rate\<close> (the constant 0.06) stand in the fields
  \<open>rate_up_item_ids\<close>, \<open>included_item_ids\<close> and \<open>four_star_character_rate\<close>; it has
  no \<^verbatim>\<open>config_group\<close>. The 4-star progression is the constant the source
  writes.
\<close>

definition saveBanner :: "BannerManager \<Rightarrow> banner_form \<Rightarrow> alert + stored_banner" where
  "saveBanner this form =
     (case validateForm this form of
        Inl a \<Rightarrow> Inl a
      | Inr _ \<Rightarrow>
          Inr \<lparr> name = trim (bannerName form),
                config_group = [],
                probability_settings =
                  \<lparr> base_5star_rate = base5StarRate form,
                    base_4star_rate = base4StarRate form,
                    base_3star_rate = one_minus (base5StarRate form) (base4StarRate form),
                    up_5star_rate = up5StarRate form,
                    up_4star_rate = up4StarRate form,
                    four_star_character_rate = Some (6 / 100) \<rparr>,
                rate_up_item_ids_5star = nonblank_items (getSelectedUpItems this 5),
                rate_up_item_ids_4star = nonblank_items (getSelectedUpItems this 4),
                included_item_ids_5star = nonblank_items (getIncludedItems this 5),
                included_item_ids_4star = nonblank_items (getIncludedItems this 4),
                included_item_ids_3star = nonblank_items (getIncludedItems this 3),
                probability_progression_5star =
                  \<lparr> hard_pity_pull = hardPityPull form,
                    hard_pity_rate = hardPityRate form,
                    soft_pity = softPityEntries form \<rparr>,
                probability_progression_4star =
                  \<lparr> hard_pity_pull = Some 10, hard_pity_rate = Some 1, soft_pity = [] \<rparr> \<rparr>)"

text \<open>
  The configuration a stored banner stands for: the banner itself when every
  number in it is a number, and none when one of them is \<^verbatim>\<open>null\<close>.
\<close>

definition interval_numbers ::
  "(int option, real option) SoftPityInterval \<Rightarrow> (int, real) SoftPityInterval option" where
  "interval_numbers i =
     (case (start_pull i, end_pull i, increment i) of
        (Some s, Some e, Some c) \<Rightarrow> Some \<lparr> start_pull = s, end_pull = e, increment = c \<rparr>
      | _ \<Rightarrow> None)"

fun intervals_numbers ::
  "(int option, real option) SoftPityInterval list \<Rightarrow> (int, real) SoftPityInterval list option" where
  "intervals_numbers [] = Some []"
| "intervals_numbers (i # rest) =
     (case (interval_numbers i, intervals_numbers rest) of
        (Some x, Some xs) \<Rightarrow> Some (x # xs)
      | _ \<Rightarrow> None)"

definition progression_numbers ::
  "(int option, real option) ProbabilityProgression \<Rightarrow> (int, real) ProbabilityProgression option" where
  "progression_numbers p =
     (case (hard_pity_pull p, hard_pity_rate p, intervals_numbers (soft_pity p)) of
        (Some k, Some r, Some xs) \<Rightarrow>
          Some \<lparr> hard_pity_pull = k, hard_pity_rate = r, soft_pity = xs \<rparr>
      | _ \<Rightarrow> None)"

definition settings_numbers :: "real option ProbabilitySettings \<Rightarrow> real ProbabilitySettings option" where
  "settings_numbers s =
     (case (base_5star_rate s, base_4star_rate s, base_3star_rate s) of
        (Some b5, Some b4, Some b3) \<Rightarrow>
          (case (up_5star_rate s, up_4star_rate s, four_star_character_rate s) of
             (Some u5, Some u4, Some c) \<Rightarrow>
               Some \<lparr> base_5star_rate = b5, base_4star_rate = b4, base_3star_rate = b3,
                      up_5star_rate = u5, up_4star_rate = u4, four_star_character_rate = c \<rparr>
           | _ \<Rightarrow> None)
      | _ \<Rightarrow> None)"

definition stored_config :: "('a, int option, real option) PoolConfig \<Rightarrow> 'a BannerConfig option" where
  "stored_config b =
     (case (settings_numbers (probability_settings b),
            progression_numbers (probability_progression_5star b),
            progression_numbers (probability_progression_4star b)) of
        (Some s, Some p5, Some p4) \<Rightarrow>
          Some \<lparr> name = name b, config_group = config_group b, probability_settings = s,
                 rate_up_item_ids_5star = rate_up_item_ids_5star b,
                 rate_up_item_ids_4star = rate_up_item_ids_4star b,
                 included_item_ids_5star = included_item_ids_5star b,
                 included_item_ids_4star = included_item_ids_4star b,
                 included_item_ids_3star = included_item_ids_3star b,
                 probability_progression_5star = p5,
                 probability_progression_4star = p4 \<rparr>
      | _ \<Rightarrow> None)"

subsection \<open>Included items and UP items\<close>

text \<open>\<^verbatim>\<open>removeIncludedItem(itemName, rarity)\<close> (lines 675-708).\<close>

definition removeIncludedItem :: "string \<Rightarrow> int \<Rightarrow> BannerManager \<Rightarrow> BannerManager" where
  "removeIncludedItem itemName rarity this =
     (if rarity = 5 then
        let this1 = this\<lparr>included5StarItems := set_delete itemName (included5StarItems this)\<rparr>
        in if itemName \<in> set (selected5StarItems this1)
           then this1\<lparr>selected5StarItems := set_delete itemName (selected5StarItems this1)\<rparr>
           else this1
      else if rarity = 4 then
        let this1 = this\<lparr>included4StarItems := set_delete itemName (included4StarItems this)\<rparr>
        in if itemName \<in> set (selected4StarItems this1)
           then this1\<lparr>selected4StarItems := set_delete itemName (selected4StarItems this1)\<rparr>
           else this1
      else this\<lparr>included3StarItems := set_delete itemName (included3StarItems this)\<rparr>)"

text \<open>
  \<^verbatim>\<open>validateUpItems()\<close> (lines 806-834): the UP items that are not included are
  collected first (\<^verbatim>\<open>Array.from(...).filter(...)\<close>) and then deleted one by one.
\<close>

definition validateUpItems :: "BannerManager \<Rightarrow> BannerManager" where
  "validateUpItems this =
     (let invalid5StarItems =
            filter (\<lambda>item. item \<notin> set (included5StarItems this)) (selected5StarItems this);
          this1 = (if length invalid5StarItems > 0
                   then this\<lparr>selected5StarItems :=
                               fold set_delete invalid5StarItems (selected5StarItems this)\<rparr>
                   else this);
          invalid4StarItems =
            filter (\<lambda>item. item \<notin> set (included4StarItems this1)) (selected4StarItems this1)
      in if length invalid4StarItems > 0
         then this1\<lparr>selected4StarItems :=
                      fold set_delete invalid4StarItems (selected4StarItems this1)\<rparr>
         else this1)"

text \<open>
  \<^verbatim>\<open>clearAllIncludedItems(rarity)\<close> (lines 837-875): the included set is copied,
  cleared, and every copied item that is a UP item is deleted from the UP set.
\<close>

definition drop_selected5 :: "string \<Rightarrow> BannerManager \<Rightarrow> BannerManager" where
  "drop_selected5 item this =
     (if item \<in> set (selected5StarItems this)
      then this\<lparr>selected5StarItems := set_delete item (selected5StarItems this)\<rparr>
      else this)"

definition drop_selected4 :: "string \<Rightarrow> BannerManager \<Rightarrow> BannerManager" where
  "drop_selected4 item this =
     (if item \<in> set (selected4StarItems this)
      then this\<lparr>selected4StarItems := set_delete item (selected4StarItems this)\<rparr>
      else this)"

definition clearAllIncludedItems :: "int \<Rightarrow> BannerManager \<Rightarrow> BannerManager" where
  "clearAllIncludedItems rarity this =
     (if rarity = 5 then
        let removedItems = included5StarItems this;
            this1 = this\<lparr>included5StarItems := []\<rparr>
        in fold drop_selected5 removedItems this1
      else if rarity = 4 then
        let removedItems = included4StarItems this;
            this1 = this\<lparr>included4StarItems := []\<rparr>
        in fold drop_selected4 removedItems this1
      else this\<lparr>included3StarItems := []\<rparr>)"

text \<open>
  \<^verbatim>\<open>setBannerUpItems(banner)\<close> (lines 567-588) and
  \<^verbatim>\<open>setBannerIncludedItems(banner)\<close> (lines 751-779), which \<^verbatim>\<open>showForm(banner)\<close>
  calls one after the other when a stored banner is opened for editing: each
  clears its sets and adds the banner's items, and neither looks at the sets of
  the other.
\<close>

definition setBannerUpItems ::
  "(string, 'k, 'p) PoolConfig \<Rightarrow> BannerManager \<Rightarrow> BannerManager" where
  "setBannerUpItems banner this =
     this\<lparr>selected5StarItems := fold set_add (rate_up_item_ids_5star banner) [],
          selected4StarItems := fold set_add (rate_up_item_ids_4star banner) []\<rparr>"

definition setBannerIncludedItems ::
  "(string, 'k, 'p) PoolConfig \<Rightarrow> BannerManager \<Rightarrow> BannerManager" where
  "setBannerIncludedItems banner this =
     this\<lparr>included5StarItems := fold set_add (included_item_ids_5star banner) [],
          included4StarItems := fold set_add (included_item_ids_4star banner) [],
          included3StarItems := fold set_add (included_item_ids_3star banner) []\<rparr>"

text \<open>The containment the page keeps: every UP item of a tier is included in it.\<close>

definition up_items_included :: "BannerManager \<Rightarrow> bool" where
  "up_items_included this =
     (set (selected5StarItems this) \<subseteq> set (included5StarItems this)
      \<and> set (selected4StarItems this) \<subseteq> set (included4StarItems this))"

section \<open>The draw engine\<close>

text \<open>
  The engine's program text is not among the repository's files under
  \<^verbatim>\<open>src/\<close>; what is there is its flowchart, \<^verbatim>\<open>src/gacha_flowchart.md\<close>. The
  control flow of one draw (which comparison is made, which counter and flag is
  set on which branch) follows the flowchart node by node. The flowchart names
  three things without saying how they are computed: the two rates
  (\<^verbatim>\<open>caculate_rate_5star\<close>, \<^verbatim>\<open>caculate_rate_4star\<close>), the test "is it an UP
  item?", and the choice of an item from a pool. These are modelled from the
  specification, each under a comment that says so.
\<close>

record PityState =
  pulls_since_5star :: nat
  pulls_since_4star :: nat
  guaranteed_5star_up :: bool
  guaranteed_4star_up :: bool

record 'a DrawResult =
  item_id :: 'a
  rarity :: Rarity
  is_rate_up :: bool

datatype engine_error = EmptyPoolError

text \<open>
  The random source is a collaborator of the engine. One draw consumes
  \<open>local_random\<close> (node B of the flowchart), a second sample \<open>up_random\<close> for
  the UP decision, and the selector's choice \<open>pick\<close>.
\<close>

record draw_random =
  local_random :: real
  up_random :: real
  pick :: nat

definition initial_state :: PityState where
  "initial_state = \<lparr> pulls_since_5star = 0, pulls_since_4star = 0,
                      guaranteed_5star_up = False, guaranteed_4star_up = False \<rparr>"

text \<open>
  Modelled from the spec: the body of \<^verbatim>\<open>caculate_rate_5star\<close> and
  \<^verbatim>\<open>caculate_rate_4star\<close> is missing. Section 4.1, step 1: "the rate at pull
  \<open>pity_5\<close> equals \<open>base_5star_rate\<close> + the sum of the increments of intervals with
  \<open>start_pull \<le> pity_5\<close>, clamped to \<open>hard_pity_rate\<close> once
  \<open>pity_5 \<ge> hard_pity_pull\<close>", and "the analogous effective 4-star rate" in step 3.
\<close>

fun soft_pity_bonus :: "(int, real) SoftPityInterval list \<Rightarrow> int \<Rightarrow> real" where
  "soft_pity_bonus [] pity = 0"
| "soft_pity_bonus (interval # rest) pity =
     (if start_pull interval \<le> pity then increment interval else 0)
     + soft_pity_bonus rest pity"

definition caculate_rate ::
  "real \<Rightarrow> (int, real) ProbabilityProgression \<Rightarrow> int \<Rightarrow> real" where
  "caculate_rate base progression pity =
     (if pity \<ge> hard_pity_pull progression then hard_pity_rate progression
      else base + soft_pity_bonus (soft_pity progression) pity)"

definition caculate_rate_5star :: "'a BannerConfig \<Rightarrow> int \<Rightarrow> real" where
  "caculate_rate_5star config pity =
     caculate_rate (base_5star_rate (probability_settings config))
       (probability_progression_5star config) pity"

definition caculate_rate_4star :: "'a BannerConfig \<Rightarrow> int \<Rightarrow> real" where
  "caculate_rate_4star config pity =
     caculate_rate (base_4star_rate (probability_settings config))
       (probability_progression_4star config) pity"

text \<open>
  Nodes B, C, D, F and Q of the flowchart: the 5-star rate is computed at
  \<^verbatim>\<open>pity_5star+1\<close> and compared with \<^verbatim>\<open>local_random\<close>; on a miss the 4-star
  rate is computed at \<^verbatim>\<open>pity_4star+1\<close> and compared with \<^verbatim>\<open>local_random\<close>.
\<close>

definition draw_tier :: "'a BannerConfig \<Rightarrow> PityState \<Rightarrow> real \<Rightarrow> Rarity" where
  "draw_tier config state r =
     (if r < caculate_rate_5star config (int (pulls_since_5star state) + 1) then Star5
      else if r < caculate_rate_4star config (int (pulls_since_4star state) + 1) then Star4
      else Star3)"

text \<open>
  Node H, "has the 4-star hard pity been reached?". The flowchart gives no
  threshold for it, and the specification has no such test at all. The model reads
  it on the pull being made, pull \<^verbatim>\<open>pity_4star+1\<close> as in node F: reached once
  that pull is \<open>hard_pity_pull\<close> or later. This is one reading among several that
  the flowchart allows; no theorem of this theory is about which 5-star hits reset
  the 4-star counter.
\<close>

definition hard_pity_reached :: "(int, real) ProbabilityProgression \<Rightarrow> nat \<Rightarrow> bool" where
  "hard_pity_reached progression pulls = (int pulls + 1 \<ge> hard_pity_pull progression)"

text \<open>
  Modelled from the spec: how nodes J/K and V/W decide "is it an UP item?" is
  missing. Section 4.1, step 2: "if the guaranteed flag is true, force selection
  from the UP subset; otherwise draw again against the UP rate: success selects
  from the UP subset, failure from the non-UP subset".
\<close>

definition resolve_up :: "bool \<Rightarrow> real \<Rightarrow> real \<Rightarrow> bool" where
  "resolve_up guaranteed up_rate u = (if guaranteed then True else u < up_rate)"

text \<open>
  Modelled from the spec: the item selector is missing. Section 4.2:
  "\<open>select(pool)\<close>: uniform random choice over a non-empty set; fails with an
  \<open>EmptyPoolError\<close> if the pool is empty", with the UP pool
  \<open>rate_up_item_ids[tier]\<close> and the non-UP pool
  \<open>included_item_ids[tier] \ rate_up_item_ids[tier]\<close>. The choice is the index the
  random source supplies.
\<close>

definition select :: "'a list \<Rightarrow> nat \<Rightarrow> engine_error + 'a" where
  "select pool n = (if pool = [] then Inl EmptyPoolError else Inr (pool ! (n mod length pool)))"

definition non_up_pool :: "'a list \<Rightarrow> 'a list \<Rightarrow> 'a list" where
  "non_up_pool included rate_up = filter (\<lambda>x. x \<notin> set rate_up) included"

definition select_hit :: "bool \<Rightarrow> 'a list \<Rightarrow> 'a list \<Rightarrow> nat \<Rightarrow> engine_error + 'a" where
  "select_hit is_up rate_up included n =
     (if is_up then select rate_up n else select (non_up_pool included rate_up) n)"

text \<open>
  One draw, after the flowchart. 5 stars (E): the 5-star counter is reset (G), the
  4-star counter is reset if the 4-star hard pity is reached (H, I), the UP test
  (J, K) clears or sets the 5-star guarantee (L, M) and the item comes from the UP
  or the non-UP pool (N, O). 4 stars (R): the 4-star counter is reset (T), the
  5-star counter goes up by one (U), and the UP test does the same with the 4-star
  guarantee (V to AA). 3 stars (S): both counters go up by one and the item comes
  from the 3-star pool (AC). A failed selection fails the draw; no state is
  returned then.
\<close>

definition draw ::
  "'a BannerConfig \<Rightarrow> PityState \<Rightarrow> draw_random \<Rightarrow> engine_error + ('a DrawResult \<times> PityState)" where
  "draw config state rnd =
     (case draw_tier config state (local_random rnd) of
        Star5 \<Rightarrow>
          let s1 = state\<lparr>pulls_since_5star := 0\<rparr>;
              s2 = (if hard_pity_reached (probability_progression_4star config)
                         (pulls_since_4star state)
                    then s1\<lparr>pulls_since_4star := 0\<rparr> else s1);
              is_up = resolve_up (guaranteed_5star_up state)
                        (up_5star_rate (probability_settings config)) (up_random rnd);
              s3 = s2\<lparr>guaranteed_5star_up := \<not> is_up\<rparr>
          in (case select_hit is_up (rate_up_item_ids_5star config)
                     (included_item_ids_5star config) (pick rnd) of
                Inl e \<Rightarrow> Inl e
              | Inr item \<Rightarrow>
                  Inr (\<lparr> item_id = item, rarity = Star5, is_rate_up = is_up \<rparr>, s3))
      | Star4 \<Rightarrow>
          let s1 = state\<lparr>pulls_since_4star := 0\<rparr>;
              s2 = s1\<lparr>pulls_since_5star := pulls_since_5star state + 1\<rparr>;
              is_up = resolve_up (guaranteed_4star_up state)
                        (up_4star_rate (probability_settings config)) (up_random rnd);
              s3 = s2\<lparr>guaranteed_4star_up := \<not> is_up\<rparr>
          in (case select_hit is_up (rate_up_item_ids_4star config)
                     (included_item_ids_4star config) (pick rnd) of
                Inl e \<Rightarrow> Inl e
              | Inr item \<Rightarrow>
                  Inr (\<lparr> item_id = item, rarity = Star4, is_rate_up = is_up \<rparr>, s3))
      | Star3 \<Rightarrow>
          let s1 = state\<lparr>pulls_since_5star := pulls_since_5star state + 1,
                          pulls_since_4star := pulls_since_4star state + 1\<rparr>
          in (case select (included_item_ids_3star config) (pick rnd) of
                Inl e \<Rightarrow> Inl e
              | Inr item \<Rightarrow>
                  Inr (\<lparr> item_id = item, rarity = Star3, is_rate_up = False \<rparr>, s1)))"

text \<open>
  A batch is the fold of the single draw over the samples, the state threaded
  through (section 5 of the specification); the first failure fails the batch.
\<close>

fun drawBatch ::
  "'a BannerConfig \<Rightarrow> PityState \<Rightarrow> draw_random list
     \<Rightarrow> engine_error + ('a DrawResult list \<times> PityState)" where
  "drawBatch config state [] = Inr ([], state)"
| "drawBatch config state (rnd # rnds) =
     (case draw config state rnd of
        Inl e \<Rightarrow> Inl e
      | Inr (result, state') \<Rightarrow>
          (case drawBatch config state' rnds of
             Inl e \<Rightarrow> Inl e
           | Inr (results, final) \<Rightarrow> Inr (result # results, final)))"

text \<open>The guarantee flag and the UP pool of a tier that has UP items.\<close>

definition up_pool :: "Rarity \<Rightarrow> 'a BannerConfig \<Rightarrow> 'a list" where
  "up_pool tier config =
     (if tier = Star5 then rate_up_item_ids_5star config else rate_up_item_ids_4star config)"

definition guarantee_flag :: "Rarity \<Rightarrow> PityState \<Rightarrow> bool" where
  "guarantee_flag tier state =
     (if tier = Star5 then guaranteed_5star_up state else guaranteed_4star_up state)"

text \<open>
  The property of a list of results that the guarantee flag stands for: scanning
  the hits of one tier in order, with \<open>pending\<close> true when the last of them was not
  an UP item, no hit is non-UP while \<open>pending\<close> holds.
\<close>

fun guarantee_respected :: "Rarity \<Rightarrow> bool \<Rightarrow> 'a DrawResult list \<Rightarrow> bool" where
  "guarantee_respected tier pending [] = True"
| "guarantee_respected tier pending (x # xs) =
     (if rarity x = tier
      then (if pending \<and> \<not> is_rate_up x then False
            else guarantee_respected tier (\<not> is_rate_up x) xs)
      else guarantee_respected tier pending xs)"

section \<open>The React editor: \<^verbatim>\<open>ConfigEditor.tsx\<close>\<close>

text \<open>
  \<^verbatim>\<open>updateRate(rarity, value)\<close> (lines 110-131). The text of the input is the
  number it parses to, or \<open>None\<close> where \<^verbatim>\<open>parseFloat\<close> gives \<^verbatim>\<open>NaN\<close>; the
  rarity \<open>tier\<close> is \<^verbatim>\<open>'5'\<close> (here \<open>Star5\<close>) or \<^verbatim>\<open>'4'\<close>.
\<close>

definition updateRate :: "Rarity \<Rightarrow> real option \<Rightarrow> 'a BannerConfig \<Rightarrow> 'a BannerConfig" where
  "updateRate tier v formData =
     (let num0 = (case v of None \<Rightarrow> 0 | Some x \<Rightarrow> x);
          num1 = num0 / 100;
          settings = probability_settings formData;
          currentOther = (if tier = Star5 then base_4star_rate settings
                          else base_5star_rate settings);
          num = (if num1 + currentOther > 1 then 1 - currentOther else num1)
      in formData\<lparr>probability_settings :=
           (if tier = Star5 then settings\<lparr>base_5star_rate := num\<rparr>
            else settings\<lparr>base_4star_rate := num\<rparr>)\<rparr>)"

text \<open>
  The input "hard pity rate %" of \<^verbatim>\<open>renderPitySettings\<close> (lines 279-288): its
  \<^verbatim>\<open>onChange\<close> calls \<^verbatim>\<open>updatePityBaseField(rarity, 'hard_pity_rate',
  (parseFloat(e.target.value) || 0) / 100)\<close>, which stores the value as it is.
  The editor's save button passes \<^verbatim>\<open>formData\<close> to \<^verbatim>\<open>onSave\<close> with no check.
\<close>

definition updatePityBaseField_hard_pity_rate ::
  "Rarity \<Rightarrow> real option \<Rightarrow> 'a BannerConfig \<Rightarrow> 'a BannerConfig" where
  "updatePityBaseField_hard_pity_rate tier v formData =
     (let x = (case v of None \<Rightarrow> 0 | Some x \<Rightarrow> x) / 100 in
      if tier = Star5
      then formData\<lparr>probability_progression_5star :=
             (probability_progression_5star formData)\<lparr>hard_pity_rate := x\<rparr>\<rparr>
      else formData\<lparr>probability_progression_4star :=
             (probability_progression_4star formData)\<lparr>hard_pity_rate := x\<rparr>\<rparr>)"

section \<open>Concrete forms, configurations and states\<close>

text \<open>
  The form filled with the values of \<^verbatim>\<open>DEFAULT_CONFIG\<close> (base rates 0.008 and
  0.06, one soft-pity interval 74 to 79 with increment 0.06, hard pity at pull 80
  with rate 1), and a manager with items in every pool.
\<close>

definition default_form :: banner_form where
  "default_form =
     \<lparr> bannerId = [], bannerName = ''Standard Pool'',
       base5StarRate = Some (8 / 1000), base4StarRate = Some (6 / 100),
       up5StarRate = Some (1 / 2), up4StarRate = Some (1 / 2),
       hardPityPull = Some 80, hardPityRate = Some 1,
       softPityEntries =
         [\<lparr> start_pull = Some 74, end_pull = Some 79, increment = Some (6 / 100) \<rparr>] \<rparr>"

definition empty_manager :: BannerManager where
  "empty_manager =
     \<lparr> selected5StarItems = [], selected4StarItems = [],
       included5StarItems = [], included4StarItems = [], included3StarItems = [] \<rparr>"

definition demo_manager :: BannerManager where
  "demo_manager =
     \<lparr> selected5StarItems = [''A''], selected4StarItems = [''C''],
       included5StarItems = [''A'', ''B''], included4StarItems = [''C'', ''D''],
       included3StarItems = [''E''] \<rparr>"

text \<open>
  The banner \<^verbatim>\<open>saveBanner\<close> builds from \<open>demo_manager\<close> and \<open>default_form\<close>, and
  the configuration it stands for.
\<close>

definition demo_banner :: stored_banner where
  "demo_banner =
     \<lparr> name = ''Standard Pool'', config_group = [],
       probability_settings =
         \<lparr> base_5star_rate = Some (8 / 1000), base_4star_rate = Some (6 / 100),
           base_3star_rate = Some (1 - 8 / 1000 - 6 / 100),
           up_5star_rate = Some (1 / 2), up_4star_rate = Some (1 / 2),
           four_star_character_rate = Some (6 / 100) \<rparr>,
       rate_up_item_ids_5star = [''A''], rate_up_item_ids_4star = [''C''],
       included_item_ids_5star = [''A'', ''B''], included_item_ids_4star = [''C'', ''D''],
       included_item_ids_3star = [''E''],
       probability_progression_5star =
         \<lparr> hard_pity_pull = Some 80, hard_pity_rate = Some 1,
           soft_pity =
             [\<lparr> start_pull = Some 74, end_pull = Some 79, increment = Some (6 / 100) \<rparr>] \<rparr>,
       probability_progression_4star =
         \<lparr> hard_pity_pull = Some 10, hard_pity_rate = Some 1, soft_pity = [] \<rparr> \<rparr>"

definition demo_config :: "string BannerConfig" where
  "demo_config =
     \<lparr> name = ''Standard Pool'', config_group = [],
       probability_settings =
         \<lparr> base_5star_rate = 8 / 1000, base_4star_rate = 6 / 100,
           base_3star_rate = 1 - 8 / 1000 - 6 / 100,
           up_5star_rate = 1 / 2, up_4star_rate = 1 / 2,
           four_star_character_rate = 6 / 100 \<rparr>,
       rate_up_item_ids_5star = [''A''], rate_up_item_ids_4star = [''C''],
       included_item_ids_5star = [''A'', ''B''], included_item_ids_4star = [''C'', ''D''],
       included_item_ids_3star = [''E''],
       probability_progression_5star =
         \<lparr> hard_pity_pull = 80, hard_pity_rate = 1,
           soft_pity = [\<lparr> start_pull = 74, end_pull = 79, increment = 6 / 100 \<rparr>] \<rparr>,
       probability_progression_4star =
         \<lparr> hard_pity_pull = 10, hard_pity_rate = 1, soft_pity = [] \<rparr> \<rparr>"

text \<open>Samples: one above every base rate, two below the 5-star one, one between.\<close>

definition sample_high :: draw_random where
  "sample_high = \<lparr> local_random = 1 / 2, up_random = 9 / 10, pick = 0 \<rparr>"

definition sample_low_no_up :: draw_random where
  "sample_low_no_up = \<lparr> local_random = 0, up_random = 9 / 10, pick = 0 \<rparr>"

definition sample_mid :: draw_random where
  "sample_mid = \<lparr> local_random = 3 / 100, up_random = 9 / 10, pick = 0 \<rparr>"

text \<open>Forms that break one rule of the soft-pity rows each.\<close>

definition reversed_interval_form :: banner_form where
  "reversed_interval_form =
     default_form\<lparr>softPityEntries :=
       [\<lparr> start_pull = Some 79, end_pull = Some 74, increment = Some (6 / 100) \<rparr>]\<rparr>"

definition low_hard_pity_form :: banner_form where
  "low_hard_pity_form = default_form\<lparr>hardPityPull := Some 79\<rparr>"

text \<open>
  The default form with the hard-pity pull left empty, and the banner
  \<^verbatim>\<open>saveBanner\<close> builds from it.
\<close>

definition empty_hard_pity_form :: banner_form where
  "empty_hard_pity_form = default_form\<lparr>hardPityPull := None\<rparr>"

definition empty_hard_pity_banner :: stored_banner where
  "empty_hard_pity_banner =
     demo_banner\<lparr>probability_progression_5star :=
       \<lparr> hard_pity_pull = None, hard_pity_rate = Some 1,
         soft_pity =
           [\<lparr> start_pull = Some 74, end_pull = Some 79, increment = Some (6 / 100) \<rparr>] \<rparr>\<rparr>"




definition half_rate_form :: banner_form where
  "half_rate_form = default_form\<lparr>hardPityRate := Some (1 / 2)\<rparr>"

definition half_rate_banner :: stored_banner where
  "half_rate_banner =
     demo_banner\<lparr>probability_progression_5star :=
       \<lparr> hard_pity_pull = Some 80, hard_pity_rate = Some (1 / 2),
         soft_pity =
           [\<lparr> start_pull = Some 74, end_pull = Some 79, increment = Some (6 / 100) \<rparr>] \<rparr>\<rparr>"

definition half_rate_config :: "string BannerConfig" where
  "half_rate_config =
     demo_config\<lparr>probability_progression_5star :=
       \<lparr> hard_pity_pull = 80, hard_pity_rate = 1 / 2,
         soft_pity = [\<lparr> start_pull = 74, end_pull = 79, increment = 6 / 100 \<rparr>] \<rparr>\<rparr>"

text \<open>A state one pull before the 5-star hard pity of the default banner.\<close>

definition hard_pity_state :: PityState where
  "hard_pity_state = \<lparr> pulls_since_5star = 79, pulls_since_4star = 8,
                        guaranteed_5star_up = False, guaranteed_4star_up = False \<rparr>"

definition sample_seven_tenths :: draw_random where
  "sample_seven_tenths = \<lparr> local_random = 7 / 10, up_random = 0, pick = 0 \<rparr>"

definition sample_almost_one :: draw_random where
  "sample_almost_one = \<lparr> local_random = 999 / 1000, up_random = 0, pick = 0 \<rparr>"

text \<open>
  Forms for the checks validation does not make: no included item at all with a
  positive 5-star base rate, an UP rate of 2, overlapping soft-pity rows, and
  soft-pity rows out of order.
\<close>

definition empty_pool_form :: banner_form where
  "empty_pool_form = default_form\<lparr>base5StarRate := Some (1 / 100)\<rparr>"

definition empty_pool_config :: stored_banner where
  "empty_pool_config =
     demo_banner\<lparr>probability_settings :=
                   (probability_settings demo_banner)
                     \<lparr>base_5star_rate := Some (1 / 100),
                      base_3star_rate := Some (1 - 1 / 100 - 6 / 100)\<rparr>,
                 rate_up_item_ids_5star := [], rate_up_item_ids_4star := [],
                 included_item_ids_5star := [], included_item_ids_4star := [],
                 included_item_ids_3star := []\<rparr>"

definition up_rate_two_form :: banner_form where
  "up_rate_two_form = default_form\<lparr>up5StarRate := Some 2\<rparr>"

definition up_rate_two_config :: stored_banner where
  "up_rate_two_config =
     demo_banner\<lparr>probability_settings :=
       (probability_settings demo_banner)\<lparr>up_5star_rate := Some 2\<rparr>\<rparr>"

definition overlapping_form :: banner_form where
  "overlapping_form =
     default_form\<lparr>softPityEntries :=
       [\<lparr> start_pull = Some 10, end_pull = Some 20, increment = Some (1 / 100) \<rparr>,
        \<lparr> start_pull = Some 15, end_pull = Some 25, increment = Some (1 / 100) \<rparr>]\<rparr>"

definition unordered_form :: banner_form where
  "unordered_form =
     default_form\<lparr>softPityEntries :=
       [\<lparr> start_pull = Some 50, end_pull = Some 60, increment = Some (1 / 100) \<rparr>,
        \<lparr> start_pull = Some 10, end_pull = Some 20, increment = Some (1 / 100) \<rparr>]\<rparr>"

definition nested_form :: banner_form where
  "nested_form =
     default_form\<lparr>softPityEntries :=
       [\<lparr> start_pull = Some 60, end_pull = Some 70, increment = Some (1 / 100) \<rparr>,
        \<lparr> start_pull = Some 1, end_pull = Some 79, increment = Some (1 / 100) \<rparr>]\<rparr>"

text \<open>
  A stored banner with a 5-star UP item that is not included (the React editor
  lets any item of the tier be marked UP), and the manager after the banner is
  opened for editing.
\<close>

definition stale_banner :: stored_banner where
  "stale_banner = demo_banner\<lparr>rate_up_item_ids_5star := [''A'', ''Z'']\<rparr>"

definition stale_manager :: BannerManager where
  "stale_manager =
     \<lparr> selected5StarItems = [''A'', ''Z''], selected4StarItems = [''C''],
       included5StarItems = [''A'', ''B''], included4StarItems = [''C'', ''D''],
       included3StarItems = [''E''] \<rparr>"

section \<open>Validation of the soft-pity rows and the hard-pity pull\<close>

lemmas form_eval = validateForm_def trim_def js_whitespace_def default_form_def
  js_ge_def js_gt_def js_le_def or_zero_def

lemmas save_eval = saveBanner_def form_eval nonblank_items_def one_minus_def
  getSelectedUpItems_def getIncludedItems_def demo_manager_def demo_banner_def

lemmas stored_eval = stored_config_def settings_numbers_def progression_numbers_def
  interval_numbers_def demo_banner_def demo_config_def

lemma saveBanner_default: "saveBanner demo_manager default_form = Inr demo_banner"
  by (simp add: save_eval)

lemma stored_config_default: "stored_config demo_banner = Some demo_config"
  by (simp add: stored_eval)

lemma soft_pity_loop_rejects:
  "\<exists>e \<in> set es. js_ge (start_pull e) (end_pull e) \<Longrightarrow> \<exists>a. soft_pity_loop i es m = Inl a"
  by (induction es arbitrary: i m) auto

lemma soft_pity_loop_accepts:
  "\<forall>e \<in> set es. \<not> js_ge (start_pull e) (end_pull e) \<Longrightarrow> \<exists>m'. soft_pity_loop i es m = Inr m'"
  by (induction es arbitrary: i m) auto

lemma soft_pity_loop_alert:
  "soft_pity_loop i es m = Inl a \<Longrightarrow> \<exists>n. a = SoftPityStartNotBeforeEnd n"
  by (induction es arbitrary: i m) (auto split: if_splits)

lemma soft_pity_loop_step:
  assumes "soft_pity_loop i (e # es) m = Inr m'"
  shows "\<not> js_ge (start_pull e) (end_pull e)
       \<and> soft_pity_loop (i + 1) es
            (case end_pull e of Some t \<Rightarrow> if t > m then t else m | None \<Rightarrow> m) = Inr m'"
  using assms by (auto simp: js_gt_def split: if_splits option.splits)

lemma soft_pity_loop_max:
  "soft_pity_loop i es m = Inr m' \<Longrightarrow>
     m \<le> m' \<and> (\<forall>e \<in> set es. \<forall>t. end_pull e = Some t \<longrightarrow> t \<le> m')"
proof (induction es arbitrary: i m)
  case Nil
  then show ?case by simp
next
  case (Cons e es)
  let ?m = "case end_pull e of Some t \<Rightarrow> if t > m then t else m | None \<Rightarrow> m"
  from soft_pity_loop_step [OF Cons.prems]
  have "soft_pity_loop (i + 1) es ?m = Inr m'" by blast
  from Cons.IH [OF this]
  have "?m \<le> m'" and "\<forall>x \<in> set es. \<forall>t. end_pull x = Some t \<longrightarrow> t \<le> m'"
    by blast+
  then show ?case by (auto split: if_splits option.splits)
qed

lemma soft_pity_loop_least:
  "soft_pity_loop i es m = Inr m' \<Longrightarrow> m' = m \<or> (\<exists>e \<in> set es. end_pull e = Some m')"
proof (induction es arbitrary: i m)
  case Nil
  then show ?case by simp
next
  case (Cons e es)
  let ?m = "case end_pull e of Some t \<Rightarrow> if t > m then t else m | None \<Rightarrow> m"
  from soft_pity_loop_step [OF Cons.prems]
  have "soft_pity_loop (i + 1) es ?m = Inr m'" by blast
  from Cons.IH [OF this] show ?case by (auto split: if_splits option.splits)
qed

lemma soft_pity_loop_Inr_iff:
  "(\<exists>m'. soft_pity_loop i es m = Inr m')
     \<longleftrightarrow> (\<forall>e \<in> set es. \<not> js_ge (start_pull e) (end_pull e))"
proof
  assume "\<exists>m'. soft_pity_loop i es m = Inr m'"
  then show "\<forall>e \<in> set es. \<not> js_ge (start_pull e) (end_pull e)"
    using soft_pity_loop_rejects [of es i m] by fastforce
next
  assume "\<forall>e \<in> set es. \<not> js_ge (start_pull e) (end_pull e)"
  then show "\<exists>m'. soft_pity_loop i es m = Inr m'"
    by (rule soft_pity_loop_accepts)
qed

text \<open>
  What \<^verbatim>\<open>validateForm\<close> accepts, \<^verbatim>\<open>NaN\<close> included: a blank field counts as 0
  for a base rate and passes every comparison of pulls.
\<close>

lemma validateForm_Inr_iff:
  "validateForm this form = Inr () \<longleftrightarrow>
     trim (bannerName form) \<noteq> []
     \<and> 0 \<le> or_zero (base5StarRate form) \<and> 0 \<le> or_zero (base4StarRate form)
     \<and> or_zero (base5StarRate form) + or_zero (base4StarRate form) \<le> 1
     \<and> (\<forall>e \<in> set (softPityEntries form). \<not> js_ge (start_pull e) (end_pull e))
     \<and> (\<forall>h. hardPityPull form = Some h \<longrightarrow>
            0 < h \<and> (\<forall>e \<in> set (softPityEntries form). \<forall>t. end_pull e = Some t \<longrightarrow> t < h))"
  (is "?lhs \<longleftrightarrow> ?rhs")
proof
  assume l: ?lhs
  then have basics: "trim (bannerName form) \<noteq> []" "0 \<le> or_zero (base5StarRate form)"
    "0 \<le> or_zero (base4StarRate form)"
    "or_zero (base5StarRate form) + or_zero (base4StarRate form) \<le> 1"
    by (auto simp: validateForm_def Let_def split: if_splits)
  from l obtain m' where loop: "soft_pity_loop 0 (softPityEntries form) 0 = Inr m'"
    and hard: "\<not> js_le (hardPityPull form) (Some m')"
    by (auto simp: validateForm_def Let_def split: if_splits sum.splits)
  from loop have ok: "\<forall>e \<in> set (softPityEntries form). \<not> js_ge (start_pull e) (end_pull e)"
    using soft_pity_loop_Inr_iff by blast
  from soft_pity_loop_max [OF loop] hard
  have "\<forall>h. hardPityPull form = Some h \<longrightarrow>
          0 < h \<and> (\<forall>e \<in> set (softPityEntries form). \<forall>t. end_pull e = Some t \<longrightarrow> t < h)"
    by (fastforce simp: js_le_def)
  with basics ok show ?rhs by blast
next
  assume r: ?rhs
  then obtain m' where loop: "soft_pity_loop 0 (softPityEntries form) 0 = Inr m'"
    using soft_pity_loop_accepts by blast
  have "\<not> js_le (hardPityPull form) (Some m')"
  proof (cases "hardPityPull form")
    case None
    then show ?thesis by (simp add: js_le_def)
  next
    case (Some h)
    with r have pos: "0 < h"
      and above: "\<forall>e \<in> set (softPityEntries form). \<forall>t. end_pull e = Some t \<longrightarrow> t < h"
      by blast+
    from soft_pity_loop_least [OF loop] above pos have "m' < h" by auto
    with Some show ?thesis by (simp add: js_le_def)
  qed
  with r loop show ?lhs
    by (simp add: validateForm_def Let_def)
qed

text \<open>
  Where the fields hold numbers, validation rejects as C7 says: a row whose
  start is at least its end, and a hard-pity pull that is at most the end of some
  row.
\<close>

lemma validateForm_rejects_numeric_pity:
  assumes "(\<exists>e \<in> set (softPityEntries form). \<exists>s t.
               start_pull e = Some s \<and> end_pull e = Some t \<and> s \<ge> t)
           \<or> (\<exists>h. hardPityPull form = Some h
                \<and> (\<exists>e \<in> set (softPityEntries form). \<exists>t. end_pull e = Some t \<and> h \<le> t))"
  shows "\<exists>a. validateForm this form = Inl a"
proof -
  from assms have "validateForm this form \<noteq> Inr ()"
    unfolding validateForm_Inr_iff by (fastforce simp: js_ge_def)
  then show ?thesis by (cases "validateForm this form") auto
qed

lemma reversed_interval_rejected:
  "validateForm empty_manager reversed_interval_form = Inl (SoftPityStartNotBeforeEnd 1)"
  by (simp add: form_eval reversed_interval_form_def)

lemma low_hard_pity_rejected:
  "validateForm empty_manager low_hard_pity_form = Inl (HardPityNotAboveSoftPity 79)"
  by (simp add: form_eval low_hard_pity_form_def)

text \<open>
  C7, the failing input. With the hard-pity field left empty, \<^verbatim>\<open>parseInt\<close> gives
  \<^verbatim>\<open>NaN\<close>, the test \<^verbatim>\<open>hardPityPull <= maxSoftPityEnd\<close> is false,
  \<^verbatim>\<open>validateForm\<close> returns true and \<^verbatim>\<open>saveBanner\<close> builds a banner whose
  \<open>hard_pity_pull\<close> is \<^verbatim>\<open>NaN\<close>, next to a soft-pity interval that ends at pull
  79. The claim says that a config whose hard-pity pull does not exceed the
  largest end pull is rejected.
\<close>

theorem empty_hard_pity_pull_accepted:
  "hardPityPull empty_hard_pity_form = None
   \<and> validateForm demo_manager empty_hard_pity_form = Inr ()
   \<and> saveBanner demo_manager empty_hard_pity_form = Inr empty_hard_pity_banner
   \<and> hard_pity_pull (probability_progression_5star empty_hard_pity_banner) = None
   \<and> stored_config empty_hard_pity_banner = None"
  by (simp add: save_eval stored_eval empty_hard_pity_form_def empty_hard_pity_banner_def)

section \<open>One draw: the single sample\<close>

lemmas draw_eval = draw_def draw_tier_def caculate_rate_5star_def caculate_rate_4star_def
  caculate_rate_def hard_pity_reached_def resolve_up_def select_hit_def select_def non_up_pool_def

lemma four_star_from_initial:
  "draw demo_config initial_state sample_mid =
     Inr (\<lparr> item_id = ''D'', rarity = Star4, is_rate_up = False \<rparr>,
          \<lparr> pulls_since_5star = 1, pulls_since_4star = 0,
            guaranteed_5star_up = False, guaranteed_4star_up = True \<rparr>)"
  by (simp add: draw_eval demo_config_def sample_mid_def initial_state_def)

text \<open>
  C9. One draw uses one sample for both tier decisions: the tier of a draw that
  returns is 5 stars when \<open>local_random\<close> is below the effective 5-star rate,
  otherwise 4 stars when the same, unchanged \<open>local_random\<close> is below the
  effective 4-star rate, otherwise 3 stars. Neither \<open>up_random\<close> nor \<open>pick\<close> nor
  any rescaled value enters the decision.
\<close>

theorem draw_single_sample:
  assumes "draw config state rnd = Inr (result, state')"
  shows "rarity result =
           (if local_random rnd < caculate_rate_5star config (int (pulls_since_5star state) + 1)
            then Star5
            else if local_random rnd < caculate_rate_4star config (int (pulls_since_4star state) + 1)
            then Star4
            else Star3)"
  using assms
  by (auto simp: draw_def draw_tier_def Let_def split: Rarity.splits sum.splits if_splits)

theorem draw_single_sample_witness:
  "\<exists>result state'.
     draw demo_config initial_state sample_mid = Inr (result, state')
     \<and> \<not> local_random sample_mid < caculate_rate_5star demo_config 1
     \<and> local_random sample_mid < caculate_rate_4star demo_config 1
     \<and> rarity result = Star4"
proof -
  have rates: "\<not> local_random sample_mid < caculate_rate_5star demo_config 1
               \<and> local_random sample_mid < caculate_rate_4star demo_config 1"
    by (simp add: draw_eval demo_config_def sample_mid_def)
  from draw_single_sample [OF four_star_from_initial] rates
  have "rarity \<lparr> item_id = ''D'', rarity = Star4, is_rate_up = False \<rparr> = Star4"
    by simp
  with rates four_star_from_initial show ?thesis by simp
qed

section \<open>Sequences of draws: the guarantee after a non-UP hit\<close>

lemma select_mem: "select pool n = Inr x \<Longrightarrow> x \<in> set pool"
  by (auto simp: select_def split: if_splits)

lemma select_hit_mem:
  assumes "select_hit is_up rate_up included n = Inr x"
  shows "is_up \<longleftrightarrow> x \<in> set rate_up"
proof (cases is_up)
  case True
  with assms select_mem [of rate_up n x] show ?thesis by (simp add: select_hit_def)
next
  case False
  with assms select_mem [of "non_up_pool included rate_up" n x] show ?thesis
    by (simp add: select_hit_def non_up_pool_def)
qed

text \<open>
  On a 5-star or 4-star hit the label \<open>is_rate_up\<close> of the result and the pool its
  item comes from agree.
\<close>

lemma draw_label:
  assumes "draw config state rnd = Inr (result, state')" and "tier = Star5 \<or> tier = Star4"
    and "rarity result = tier"
  shows "is_rate_up result \<longleftrightarrow> item_id result \<in> set (up_pool tier config)"
  using assms
  by (auto simp: draw_def Let_def up_pool_def dest: select_hit_mem
           split: Rarity.splits sum.splits if_splits)

lemma drawBatch_label:
  assumes "drawBatch config state rnds = Inr (results, final)" and "tier = Star5 \<or> tier = Star4"
  shows "\<forall>x \<in> set results. rarity x = tier \<longrightarrow>
           (is_rate_up x \<longleftrightarrow> item_id x \<in> set (up_pool tier config))"
  using assms(1)
proof (induction rnds arbitrary: state results)
  case Nil
  then show ?case by simp
next
  case (Cons rnd rnds)
  from Cons.prems obtain result state' rest where
    d: "draw config state rnd = Inr (result, state')" and
    b: "drawBatch config state' rnds = Inr (rest, final)" and
    r: "results = result # rest"
    by (auto split: sum.splits prod.splits)
  from Cons.IH [OF b] draw_label [OF d assms(2)] show ?case
    unfolding r by auto
qed

lemma draw_guarantee_5star:
  assumes "draw config state rnd = Inr (result, state')"
  shows "(rarity result = Star5 \<longrightarrow>
            guaranteed_5star_up state' = (\<not> is_rate_up result)
            \<and> (guaranteed_5star_up state \<longrightarrow> is_rate_up result))
       \<and> (rarity result \<noteq> Star5 \<longrightarrow> guaranteed_5star_up state' = guaranteed_5star_up state)"
  using assms
  by (auto simp: draw_def Let_def resolve_up_def split: Rarity.splits sum.splits if_splits)

lemma draw_guarantee_4star:
  assumes "draw config state rnd = Inr (result, state')"
  shows "(rarity result = Star4 \<longrightarrow>
            guaranteed_4star_up state' = (\<not> is_rate_up result)
            \<and> (guaranteed_4star_up state \<longrightarrow> is_rate_up result))
       \<and> (rarity result \<noteq> Star4 \<longrightarrow> guaranteed_4star_up state' = guaranteed_4star_up state)"
  using assms
  by (auto simp: draw_def Let_def resolve_up_def split: Rarity.splits sum.splits if_splits)

lemma draw_guarantee:
  assumes "draw config state rnd = Inr (result, state')" and "tier = Star5 \<or> tier = Star4"
  shows "(rarity result = tier \<longrightarrow>
            guarantee_flag tier state' = (\<not> is_rate_up result)
            \<and> (guarantee_flag tier state \<longrightarrow> is_rate_up result))
       \<and> (rarity result \<noteq> tier \<longrightarrow> guarantee_flag tier state' = guarantee_flag tier state)"
  using assms draw_guarantee_5star [OF assms(1)] draw_guarantee_4star [OF assms(1)]
  by (auto simp: guarantee_flag_def)

lemma drawBatch_guarantee_respected:
  assumes "drawBatch config state rnds = Inr (results, final)" and "tier = Star5 \<or> tier = Star4"
  shows "guarantee_respected tier (guarantee_flag tier state) results"
  using assms(1)
proof (induction rnds arbitrary: state results)
  case Nil
  then show ?case by simp
next
  case (Cons rnd rnds)
  from Cons.prems obtain result state' rest where
    d: "draw config state rnd = Inr (result, state')" and
    b: "drawBatch config state' rnds = Inr (rest, final)" and
    r: "results = result # rest"
    by (auto split: sum.splits prod.splits)
  from Cons.IH [OF b] have ih: "guarantee_respected tier (guarantee_flag tier state') rest" .
  from draw_guarantee [OF d assms(2)] ih show ?case
    unfolding r by auto
qed

lemma guarantee_respected_next_hit:
  assumes "guarantee_respected tier True xs" and "j < length xs"
    and "rarity (xs ! j) = tier" and "\<forall>k < j. rarity (xs ! k) \<noteq> tier"
  shows "is_rate_up (xs ! j)"
  using assms
proof (induction xs arbitrary: j)
  case Nil
  then show ?case by simp
next
  case (Cons x xs)
  show ?case
  proof (cases j)
    case 0
    with Cons.prems show ?thesis by (auto split: if_splits)
  next
    case (Suc j')
    from Cons.prems Suc have x: "rarity x \<noteq> tier" by auto
    with Cons.prems have g: "guarantee_respected tier True xs" by simp
    from Cons.prems Suc have "j' < length xs" "rarity (xs ! j') = tier"
      "\<forall>k < j'. rarity (xs ! k) \<noteq> tier" by auto
    from Cons.IH [OF g this] Suc show ?thesis by simp
  qed
qed

lemma guarantee_respected_consecutive:
  assumes "guarantee_respected tier pending xs" and "i < j" and "j < length xs"
    and "rarity (xs ! i) = tier" and "rarity (xs ! j) = tier"
    and "\<forall>k. i < k \<and> k < j \<longrightarrow> rarity (xs ! k) \<noteq> tier"
    and "\<not> is_rate_up (xs ! i)"
  shows "is_rate_up (xs ! j)"
  using assms
proof (induction xs arbitrary: i j pending)
  case Nil
  then show ?case by simp
next
  case (Cons x xs)
  from Cons.prems(2) obtain j' where j: "j = Suc j'" by (cases j) auto
  show ?case
  proof (cases i)
    case 0
    with Cons.prems have g: "guarantee_respected tier True xs"
      by (auto split: if_splits)
    from Cons.prems j 0 have "j' < length xs" "rarity (xs ! j') = tier" by auto
    moreover from Cons.prems(6) j 0 have "\<forall>k < j'. rarity (xs ! k) \<noteq> tier"
      by (metis Suc_less_eq nth_Cons_Suc zero_less_Suc)
    ultimately show ?thesis using guarantee_respected_next_hit [OF g] j by simp
  next
    case (Suc i')
    from Cons.prems(1) obtain p where g: "guarantee_respected tier p xs"
      by (auto split: if_splits)
    from Cons.prems j Suc have "i' < j'" "j' < length xs" "rarity (xs ! i') = tier"
      "rarity (xs ! j') = tier" "\<not> is_rate_up (xs ! i')" by auto
    moreover from Cons.prems(6) j Suc have "\<forall>k. i' < k \<and> k < j' \<longrightarrow> rarity (xs ! k) \<noteq> tier"
      by (metis Suc_less_eq nth_Cons_Suc)
    ultimately show ?thesis using Cons.IH [OF g] j by simp
  qed
qed

text \<open>
  C2. In every sequence of draws that starts from the initial state (counters 0,
  flags false), for two consecutive hits of the same tier, 5 stars or 4 stars (no
  hit of that tier between them): if the item of the first is not one of the
  tier's UP items, the item of the second is one of the tier's UP items (and the
  result is labelled as such). Two non-UP 5-star hits in a row never occur, nor
  two non-UP 4-star hits in a row.
\<close>

theorem guaranteed_up_after_non_up:
  assumes "drawBatch config initial_state rnds = Inr (results, final)"
    and "tier = Star5 \<or> tier = Star4"
    and "i < j" and "j < length results"
    and "rarity (results ! i) = tier" and "rarity (results ! j) = tier"
    and "\<forall>k. i < k \<and> k < j \<longrightarrow> rarity (results ! k) \<noteq> tier"
    and "item_id (results ! i) \<notin> set (up_pool tier config)"
  shows "item_id (results ! j) \<in> set (up_pool tier config) \<and> is_rate_up (results ! j)"
proof -
  note label = drawBatch_label [OF assms(1) assms(2)]
  from assms(3,4) have mem: "results ! i \<in> set results" "results ! j \<in> set results"
    by simp_all
  from label mem(1) assms(5,8) have "\<not> is_rate_up (results ! i)" by blast
  from guarantee_respected_consecutive
         [OF drawBatch_guarantee_respected [OF assms(1) assms(2)] assms(3-7) this]
  have up: "is_rate_up (results ! j)" .
  with label mem(2) assms(6) show ?thesis by blast
qed

lemma lost_then_won:
  "drawBatch demo_config initial_state [sample_low_no_up, sample_high, sample_low_no_up] =
     Inr ([\<lparr> item_id = ''B'', rarity = Star5, is_rate_up = False \<rparr>,
           \<lparr> item_id = ''E'', rarity = Star3, is_rate_up = False \<rparr>,
           \<lparr> item_id = ''A'', rarity = Star5, is_rate_up = True \<rparr>],
          \<lparr> pulls_since_5star = 0, pulls_since_4star = 1,
            guaranteed_5star_up = False, guaranteed_4star_up = False \<rparr>)"
  by (simp add: draw_eval demo_config_def sample_low_no_up_def sample_high_def initial_state_def)

theorem guaranteed_up_after_non_up_witness:
  "\<exists>results final.
     drawBatch demo_config initial_state [sample_low_no_up, sample_high, sample_low_no_up] =
       Inr (results, final)
     \<and> length results = 3
     \<and> up_pool Star5 demo_config = [''A'']
     \<and> rarity (results ! 0) = Star5 \<and> item_id (results ! 0) = ''B''
     \<and> rarity (results ! 1) = Star3
     \<and> rarity (results ! 2) = Star5 \<and> item_id (results ! 2) = ''A''
     \<and> item_id (results ! 2) \<in> set (up_pool Star5 demo_config)
     \<and> is_rate_up (results ! 2)"
proof -
  let ?results = "[\<lparr> item_id = ''B'', rarity = Star5, is_rate_up = False \<rparr>,
                   \<lparr> item_id = ''E'', rarity = Star3, is_rate_up = False \<rparr>,
                   \<lparr> item_id = ''A'', rarity = Star5, is_rate_up = True \<rparr>]"
  have pool: "up_pool Star5 demo_config = [''A'']"
    by (simp add: up_pool_def demo_config_def)
  have between: "\<forall>k. 0 < k \<and> k < 2 \<longrightarrow> rarity (?results ! k) \<noteq> Star5"
  proof (intro allI impI)
    fix k :: nat
    assume "0 < k \<and> k < 2"
    then have "k = 1" by arith
    then show "rarity (?results ! k) \<noteq> Star5" by simp
  qed
  have "item_id (?results ! 2) \<in> set (up_pool Star5 demo_config) \<and> is_rate_up (?results ! 2)"
    by (rule guaranteed_up_after_non_up [OF lost_then_won, where tier = Star5 and i = 0])
       (use between pool in simp_all)
  with lost_then_won pool show ?thesis by simp
qed

section \<open>The effective rate: soft pity and hard pity\<close>

lemma soft_pity_bonus_sum:
  "soft_pity_bonus sp k = (\<Sum>i\<leftarrow>filter (\<lambda>i. start_pull i \<le> k) sp. increment i)"
  by (induction sp) auto

lemma soft_pity_bonus_mono:
  assumes "\<forall>i \<in> set sp. 0 \<le> increment i" and "k \<le> k'"
  shows "soft_pity_bonus sp k \<le> soft_pity_bonus sp k'"
  using assms
proof (induction sp)
  case Nil
  then show ?case by simp
next
  case (Cons i sp)
  then have "soft_pity_bonus sp k \<le> soft_pity_bonus sp k'" and "0 \<le> increment i"
    by auto
  with Cons.prems(2) show ?case by auto
qed

text \<open>
  Section 4.1 of the specification also asks that a rate above 1 be clamped to 1
  before the comparison. The clamp is not part of the rate modelled here, and it
  changes no comparison with a sample below 1.
\<close>

lemma clamp_to_one_changes_no_comparison:
  "r < 1 \<Longrightarrow> (r < min 1 (caculate_rate base progression pity))
             = (r < caculate_rate base progression pity)"
  by auto

text \<open>
  What the rate of section 4.1 is, whatever the increments are: below the hard
  pity the base rate plus the increments of the intervals that have started, from
  the hard pity on the hard-pity rate. It is non-decreasing below the hard pity
  when no increment is negative.
\<close>

lemma caculate_rate_5star_formula:
  "(\<forall>k. 1 \<le> k \<and> k \<le> hard_pity_pull (probability_progression_5star config) - 1 \<longrightarrow>
      caculate_rate_5star config k =
        base_5star_rate (probability_settings config)
        + (\<Sum>i\<leftarrow>filter (\<lambda>i. start_pull i \<le> k)
                  (soft_pity (probability_progression_5star config)). increment i))
   \<and> (\<forall>k. hard_pity_pull (probability_progression_5star config) \<le> k \<longrightarrow>
        caculate_rate_5star config k = hard_pity_rate (probability_progression_5star config))"
  by (simp add: caculate_rate_5star_def caculate_rate_def soft_pity_bonus_sum)

lemma caculate_rate_5star_mono:
  assumes "\<forall>i \<in> set (soft_pity (probability_progression_5star config)). 0 \<le> increment i"
    and "1 \<le> k" and "k \<le> k'"
    and "k' \<le> hard_pity_pull (probability_progression_5star config) - 1"
  shows "caculate_rate_5star config k \<le> caculate_rate_5star config k'"
proof -
  have "soft_pity_bonus (soft_pity (probability_progression_5star config)) k
        \<le> soft_pity_bonus (soft_pity (probability_progression_5star config)) k'"
    by (rule soft_pity_bonus_mono [OF assms(1) assms(3)])
  with assms(3,4) show ?thesis
    by (simp add: caculate_rate_5star_def caculate_rate_def)
qed


text \<open>
  C4, as stated, fails: validation accepts any hard-pity rate. With a hard-pity
  rate of one half, the draw at the hard-pity pull (79 pulls since the last
  5-star, hard pity at pull 80) with the sample 0.7 is a 3-star draw.
\<close>

theorem hard_pity_draw_can_miss:
  "saveBanner demo_manager half_rate_form = Inr half_rate_banner
   \<and> stored_config half_rate_banner = Some half_rate_config
   \<and> int (pulls_since_5star hard_pity_state) + 1
       = hard_pity_pull (probability_progression_5star half_rate_config)
   \<and> 0 \<le> local_random sample_seven_tenths \<and> local_random sample_seven_tenths < 1
   \<and> draw half_rate_config hard_pity_state sample_seven_tenths =
       Inr (\<lparr> item_id = ''E'', rarity = Star3, is_rate_up = False \<rparr>,
            \<lparr> pulls_since_5star = 80, pulls_since_4star = 9,
              guaranteed_5star_up = False, guaranteed_4star_up = False \<rparr>)"
  by (simp add: save_eval stored_eval half_rate_form_def half_rate_banner_def
        half_rate_config_def hard_pity_state_def sample_seven_tenths_def draw_eval)

lemma editor_stores_any_hard_pity_rate:
  "hard_pity_rate (probability_progression_5star
     (updatePityBaseField_hard_pity_rate Star5 (Some 50) demo_config)) = 1 / 2"
  by (simp add: updatePityBaseField_hard_pity_rate_def)

text \<open>
  C4, amended. When a draw is made with \<open>pulls_since_5star + 1 = hard_pity_pull\<close>,
  the effective 5-star rate equals \<open>hard_pity_rate\<close> and the outcome tier is 5
  stars exactly for the samples \<open>r < hard_pity_rate\<close>; so it is 5 stars for every
  \<open>r\<close> in [0,1) when \<open>hard_pity_rate\<close> is at least 1 (validation does not check
  \<open>hard_pity_rate\<close>). In particular with \<open>base_5star_rate\<close> 0.008, soft pity
  (74, 79, 0.06), \<open>hard_pity_pull\<close> 80, \<open>hard_pity_rate\<close> 1 and
  \<open>pulls_since_5star\<close> 79, every draw is a 5-star draw.
\<close>

theorem hard_pity_draw_is_5star:
  assumes "int (pulls_since_5star state) + 1 = hard_pity_pull (probability_progression_5star config)"
  shows "caculate_rate_5star config (int (pulls_since_5star state) + 1)
           = hard_pity_rate (probability_progression_5star config)
       \<and> (draw_tier config state r = Star5
            \<longleftrightarrow> r < hard_pity_rate (probability_progression_5star config))
       \<and> (1 \<le> hard_pity_rate (probability_progression_5star config) \<and> r < 1
            \<longrightarrow> draw_tier config state r = Star5)
       \<and> (1 \<le> hard_pity_rate (probability_progression_5star config) \<and> local_random rnd < 1
            \<and> draw config state rnd = Inr (result, state') \<longrightarrow> rarity result = Star5)"
proof -
  from assms have rate: "caculate_rate_5star config (int (pulls_since_5star state) + 1)
      = hard_pity_rate (probability_progression_5star config)"
    by (simp add: caculate_rate_5star_def caculate_rate_def)
  then have tier: "\<And>x. draw_tier config state x = Star5
      \<longleftrightarrow> x < hard_pity_rate (probability_progression_5star config)"
    by (simp add: draw_tier_def)
  have res: "draw config state rnd = Inr (result, state') \<Longrightarrow>
      rarity result = draw_tier config state (local_random rnd)"
    by (auto simp: draw_def Let_def split: Rarity.splits sum.splits)
  from rate tier res show ?thesis by auto
qed

theorem hard_pity_draw_is_5star_witness:
  "int (pulls_since_5star hard_pity_state) + 1
     = hard_pity_pull (probability_progression_5star demo_config)
   \<and> caculate_rate_5star demo_config 80 = 1
   \<and> draw_tier demo_config hard_pity_state (999 / 1000) = Star5
   \<and> draw demo_config hard_pity_state sample_almost_one =
       Inr (\<lparr> item_id = ''A'', rarity = Star5, is_rate_up = True \<rparr>,
            \<lparr> pulls_since_5star = 0, pulls_since_4star = 8,
              guaranteed_5star_up = False, guaranteed_4star_up = False \<rparr>)"
proof -
  have h: "int (pulls_since_5star hard_pity_state) + 1
     = hard_pity_pull (probability_progression_5star demo_config)"
    by (simp add: hard_pity_state_def demo_config_def)
  have hr: "hard_pity_rate (probability_progression_5star demo_config) = 1"
    by (simp add: demo_config_def)
  have p: "int (pulls_since_5star hard_pity_state) + 1 = 80"
    by (simp add: hard_pity_state_def)
  note t = hard_pity_draw_is_5star [OF h, where r = "999 / 1000"]
  from t have a: "caculate_rate_5star demo_config 80 = 1"
    by (simp add: hr p)
  from t have b: "draw_tier demo_config hard_pity_state (999 / 1000) = Star5"
    by (simp add: hr)
  have c: "draw demo_config hard_pity_state sample_almost_one =
       Inr (\<lparr> item_id = ''A'', rarity = Star5, is_rate_up = True \<rparr>,
            \<lparr> pulls_since_5star = 0, pulls_since_4star = 8,
              guaranteed_5star_up = False, guaranteed_4star_up = False \<rparr>)"
    using b
    by (simp add: draw_def sample_almost_one_def hard_pity_state_def hard_pity_reached_def
          resolve_up_def select_hit_def select_def demo_config_def)
  from h a b c show ?thesis by blast
qed

section \<open>What validation checks, and what it does not\<close>

text \<open>
  C5, as stated, fails: validation accepts a form while every included pool is
  empty and the 5-star base rate is 0.01, and \<^verbatim>\<open>saveBanner\<close> builds the banner
  with the empty pools.
\<close>

theorem empty_pool_accepted:
  "validateForm empty_manager empty_pool_form = Inr ()
   \<and> saveBanner empty_manager empty_pool_form = Inr empty_pool_config
   \<and> included_item_ids_5star empty_pool_config = []
   \<and> base_5star_rate (probability_settings empty_pool_config) = Some (1 / 100)"
  by (simp add: save_eval empty_manager_def empty_pool_form_def empty_pool_config_def)

lemma nonblank_items_empty: "nonblank_items (join_comma []) = []"
  by (simp add: nonblank_items_def trim_def)

text \<open>
  C5, amended. Validation does not look at the included pools: its verdict on a
  form is the same whatever the manager's five item sets hold, and every form
  that is accepted and saved is accepted and saved just the same, with an empty
  included 5-star pool, when the manager's 5-star pool is empty. So a config
  whose 5-star pool is empty while \<open>base_5star_rate > 0\<close> is accepted or
  rejected on its name, base rates and pity settings alone; there is no
  pool-emptiness error.
\<close>

theorem validateForm_ignores_pools:
  "validateForm this' form = validateForm this form
   \<and> (saveBanner this form = Inr config \<longrightarrow>
        saveBanner (this\<lparr>included5StarItems := []\<rparr>) form
          = Inr (config\<lparr>included_item_ids_5star := []\<rparr>))"
proof -
  have v: "\<And>a b. validateForm a form = validateForm b form"
    by (simp add: validateForm_def)
  have "saveBanner (this\<lparr>included5StarItems := []\<rparr>) form
          = Inr (config\<lparr>included_item_ids_5star := []\<rparr>)"
    if s: "saveBanner this form = Inr config"
  proof -
    from s have acc: "validateForm this form = Inr ()"
      by (auto simp: saveBanner_def split: sum.splits)
    then have acc': "validateForm (this\<lparr>included5StarItems := []\<rparr>) form = Inr ()"
      using v [of "this\<lparr>included5StarItems := []\<rparr>" this] by simp
    from s acc acc' show ?thesis
      using nonblank_items_empty
      by (auto simp: saveBanner_def getSelectedUpItems_def getIncludedItems_def)
  qed
  with v show ?thesis by blast
qed

theorem validateForm_ignores_pools_witness:
  "saveBanner demo_manager default_form = Inr demo_banner
   \<and> base_5star_rate (probability_settings demo_banner) = Some (8 / 1000)
   \<and> saveBanner (demo_manager\<lparr>included5StarItems := []\<rparr>) default_form
       = Inr (demo_banner\<lparr>included_item_ids_5star := []\<rparr>)"
proof -
  have r: "base_5star_rate (probability_settings demo_banner) = Some (8 / 1000)"
    by (simp add: demo_banner_def)
  from validateForm_ignores_pools [of demo_manager default_form demo_manager demo_banner]
    saveBanner_default
  have "saveBanner (demo_manager\<lparr>included5StarItems := []\<rparr>) default_form
       = Inr (demo_banner\<lparr>included_item_ids_5star := []\<rparr>)"
    by blast
  with saveBanner_default r show ?thesis by blast
qed

text \<open>
  C6, as stated, fails: validation accepts a form whose 5-star UP rate is 2, and
  the banner built from it carries that rate.
\<close>

theorem up_rate_out_of_range_accepted:
  "up5StarRate up_rate_two_form = Some 2
   \<and> validateForm demo_manager up_rate_two_form = Inr ()
   \<and> saveBanner demo_manager up_rate_two_form = Inr up_rate_two_config
   \<and> up_5star_rate (probability_settings up_rate_two_config) = Some 2"
  by (simp add: save_eval up_rate_two_form_def up_rate_two_config_def)

lemma rate_sum_check_never_fails:
  "validateForm this form \<noteq> Inl (RateSumNotOne x)"
  by (auto simp: validateForm_def Let_def split: sum.splits dest: soft_pity_loop_alert)

lemma updateRate_caps_sum:
  "base_5star_rate (probability_settings (updateRate tier v formData))
   + base_4star_rate (probability_settings (updateRate tier v formData)) \<le> 1"
  by (simp add: updateRate_def Let_def)

lemma updateRate_stores_negative:
  "base_5star_rate (probability_settings (updateRate Star5 (Some (- 5)) demo_config)) = - (5 / 100)"
  by (simp add: updateRate_def Let_def demo_config_def)

text \<open>
  C6, amended. For every config built from a form that validation accepts and
  whose two base-rate fields hold numbers: \<open>base_5star_rate \<ge> 0\<close>,
  \<open>base_4star_rate \<ge> 0\<close>, the derived
  \<open>base_3star_rate = 1 - base_5star_rate - base_4star_rate \<ge> 0\<close>, so each base
  rate lies in [0,1], and the three sum to 1 within the tolerance 0.01.
  Validation reads no other rate: \<open>up_5star_rate\<close>, \<open>up_4star_rate\<close> and
  \<open>hard_pity_rate\<close> are stored as entered, and the verdict does not depend on
  them. The rate-sum check fails for no input, because the 3-star rate it adds is
  the derived one.
\<close>

theorem accepted_base_rates:
  assumes "saveBanner this form = Inr config"
    and "base5StarRate form = Some b5" and "base4StarRate form = Some b4"
  shows "base_5star_rate (probability_settings config) = Some b5
       \<and> base_4star_rate (probability_settings config) = Some b4
       \<and> base_3star_rate (probability_settings config) = Some (1 - b5 - b4)
       \<and> 0 \<le> b5 \<and> b5 \<le> 1 \<and> 0 \<le> b4 \<and> b4 \<le> 1
       \<and> 0 \<le> 1 - b5 - b4 \<and> 1 - b5 - b4 \<le> 1
       \<and> \<bar>b5 + b4 + (1 - b5 - b4) - 1\<bar> \<le> 1 / 100
       \<and> up_5star_rate (probability_settings config) = up5StarRate form
       \<and> up_4star_rate (probability_settings config) = up4StarRate form
       \<and> hard_pity_rate (probability_progression_5star config) = hardPityRate form
       \<and> validateForm this (form\<lparr>up5StarRate := u5, up4StarRate := u4, hardPityRate := h\<rparr>)
           = validateForm this form
       \<and> validateForm this' form' \<noteq> Inl (RateSumNotOne x)"
proof -
  from assms(1) have acc: "validateForm this form = Inr ()"
    by (auto simp: saveBanner_def split: sum.splits)
  then have "0 \<le> or_zero (base5StarRate form)" "0 \<le> or_zero (base4StarRate form)"
    "or_zero (base5StarRate form) + or_zero (base4StarRate form) \<le> 1"
    using validateForm_Inr_iff by blast+
  with assms(2,3) have rates: "0 \<le> b5" "0 \<le> b4" "b5 + b4 \<le> 1"
    by (simp_all add: or_zero_def)
  from assms acc have cfg:
    "base_5star_rate (probability_settings config) = Some b5"
    "base_4star_rate (probability_settings config) = Some b4"
    "base_3star_rate (probability_settings config) = Some (1 - b5 - b4)"
    "up_5star_rate (probability_settings config) = up5StarRate form"
    "up_4star_rate (probability_settings config) = up4StarRate form"
    "hard_pity_rate (probability_progression_5star config) = hardPityRate form"
    by (auto simp: saveBanner_def one_minus_def)
  have indep: "validateForm this (form\<lparr>up5StarRate := u5, up4StarRate := u4, hardPityRate := h\<rparr>)
      = validateForm this form"
    by (simp add: validateForm_def Let_def split: sum.splits)
  from rates cfg indep rate_sum_check_never_fails [of this' form' x] show ?thesis
    by simp
qed

theorem accepted_base_rates_witness:
  "saveBanner demo_manager default_form = Inr demo_banner
   \<and> base5StarRate default_form = Some (8 / 1000)
   \<and> base4StarRate default_form = Some (6 / 100)
   \<and> base_5star_rate (probability_settings demo_banner) = Some (8 / 1000)
   \<and> base_4star_rate (probability_settings demo_banner) = Some (6 / 100)
   \<and> base_3star_rate (probability_settings demo_banner) = Some (1 - 8 / 1000 - 6 / 100)
   \<and> up_5star_rate (probability_settings demo_banner) = up5StarRate default_form"
proof -
  have b: "base5StarRate default_form = Some (8 / 1000)"
    "base4StarRate default_form = Some (6 / 100)"
    by (simp_all add: default_form_def)
  from accepted_base_rates [OF saveBanner_default b] saveBanner_default b
  show ?thesis by simp
qed

text \<open>
  C8, as stated, fails: validation accepts soft-pity rows that overlap (10 to 20
  and 15 to 25) and rows that are out of order (50 to 60 before 10 to 20).
\<close>

theorem overlapping_intervals_accepted:
  "softPityEntries overlapping_form =
     [\<lparr> start_pull = Some 10, end_pull = Some 20, increment = Some (1 / 100) \<rparr>,
      \<lparr> start_pull = Some 15, end_pull = Some 25, increment = Some (1 / 100) \<rparr>]
   \<and> validateForm empty_manager overlapping_form = Inr ()
   \<and> softPityEntries unordered_form =
     [\<lparr> start_pull = Some 50, end_pull = Some 60, increment = Some (1 / 100) \<rparr>,
      \<lparr> start_pull = Some 10, end_pull = Some 20, increment = Some (1 / 100) \<rparr>]
   \<and> validateForm empty_manager unordered_form = Inr ()"
  by (simp add: form_eval overlapping_form_def unordered_form_def)

text \<open>
  C8, amended. Validation does not compare soft-pity intervals with one another.
  For a form whose hard-pity pull and whose interval starts and ends are all
  numbers, and whose rest passes (its name, its base rates and a positive
  hard-pity pull): the form is accepted exactly when every interval on its own
  has \<open>start_pull < end_pull\<close> and \<open>end_pull < hard_pity_pull\<close>. So intervals
  that overlap or are out of order are accepted.
\<close>

theorem validateForm_checks_each_interval_alone:
  assumes "validateForm this (form\<lparr>softPityEntries := []\<rparr>) = Inr ()"
    and "hardPityPull form = Some h"
    and "\<forall>e \<in> set (softPityEntries form). start_pull e \<noteq> None \<and> end_pull e \<noteq> None"
  shows "validateForm this form = Inr () \<longleftrightarrow>
           (\<forall>e \<in> set (softPityEntries form).
              \<exists>s t. start_pull e = Some s \<and> end_pull e = Some t \<and> s < t \<and> t < h)"
proof -
  from assms(1,2) have rest: "trim (bannerName form) \<noteq> []"
    "0 \<le> or_zero (base5StarRate form)" "0 \<le> or_zero (base4StarRate form)"
    "or_zero (base5StarRate form) + or_zero (base4StarRate form) \<le> 1" "0 < h"
    unfolding validateForm_Inr_iff by simp_all
  have row: "(\<not> js_ge (start_pull e) (end_pull e) \<and> (\<forall>t. end_pull e = Some t \<longrightarrow> t < h))
      \<longleftrightarrow> (\<exists>s t. start_pull e = Some s \<and> end_pull e = Some t \<and> s < t \<and> t < h)"
    if "e \<in> set (softPityEntries form)" for e
  proof -
    from that assms(3) obtain s t where "start_pull e = Some s" "end_pull e = Some t"
      by auto
    then show ?thesis by (auto simp: js_ge_def)
  qed
  have "validateForm this form = Inr () \<longleftrightarrow>
      (\<forall>e \<in> set (softPityEntries form).
         \<not> js_ge (start_pull e) (end_pull e) \<and> (\<forall>t. end_pull e = Some t \<longrightarrow> t < h))"
    unfolding validateForm_Inr_iff using rest assms(2) by auto
  also have "\<dots> \<longleftrightarrow> (\<forall>e \<in> set (softPityEntries form).
      \<exists>s t. start_pull e = Some s \<and> end_pull e = Some t \<and> s < t \<and> t < h)"
    using row by blast
  finally show ?thesis .
qed

theorem validateForm_checks_each_interval_alone_witness:
  "validateForm empty_manager (nested_form\<lparr>softPityEntries := []\<rparr>) = Inr ()
   \<and> softPityEntries nested_form =
       [\<lparr> start_pull = Some 60, end_pull = Some 70, increment = Some (1 / 100) \<rparr>,
        \<lparr> start_pull = Some 1, end_pull = Some 79, increment = Some (1 / 100) \<rparr>]
   \<and> hardPityPull nested_form = Some 80
   \<and> validateForm empty_manager nested_form = Inr ()"
proof -
  have h: "validateForm empty_manager (nested_form\<lparr>softPityEntries := []\<rparr>) = Inr ()"
    by (simp add: form_eval nested_form_def)
  have e: "softPityEntries nested_form =
       [\<lparr> start_pull = Some 60, end_pull = Some 70, increment = Some (1 / 100) \<rparr>,
        \<lparr> start_pull = Some 1, end_pull = Some 79, increment = Some (1 / 100) \<rparr>]"
    and p: "hardPityPull nested_form = Some 80"
    by (simp_all add: nested_form_def default_form_def)
  have n: "\<forall>e \<in> set (softPityEntries nested_form). start_pull e \<noteq> None \<and> end_pull e \<noteq> None"
    by (simp add: e)
  have "validateForm empty_manager nested_form = Inr ()"
    unfolding validateForm_checks_each_interval_alone [OF h p n] by (simp add: e)
  with h e p show ?thesis by blast
qed

section \<open>UP items stay included\<close>

lemma set_set_delete: "set (set_delete x xs) = set xs - {x}"
  by (simp add: set_delete_def)

lemma set_fold_set_delete: "set (fold set_delete ys xs) = set xs - set ys"
  by (induction ys arbitrary: xs) (auto simp: set_set_delete)

lemma drop_selected5_fields:
  "set (selected5StarItems (drop_selected5 item this)) = set (selected5StarItems this) - {item}"
  "selected4StarItems (drop_selected5 item this) = selected4StarItems this"
  "included5StarItems (drop_selected5 item this) = included5StarItems this"
  "included4StarItems (drop_selected5 item this) = included4StarItems this"
  "included3StarItems (drop_selected5 item this) = included3StarItems this"
  by (auto simp: drop_selected5_def set_set_delete)

lemma drop_selected4_fields:
  "set (selected4StarItems (drop_selected4 item this)) = set (selected4StarItems this) - {item}"
  "selected5StarItems (drop_selected4 item this) = selected5StarItems this"
  "included5StarItems (drop_selected4 item this) = included5StarItems this"
  "included4StarItems (drop_selected4 item this) = included4StarItems this"
  "included3StarItems (drop_selected4 item this) = included3StarItems this"
  by (auto simp: drop_selected4_def set_set_delete)

lemma fold_drop_selected5:
  "set (selected5StarItems (fold drop_selected5 items this)) = set (selected5StarItems this) - set items
   \<and> selected4StarItems (fold drop_selected5 items this) = selected4StarItems this
   \<and> included5StarItems (fold drop_selected5 items this) = included5StarItems this
   \<and> included4StarItems (fold drop_selected5 items this) = included4StarItems this
   \<and> included3StarItems (fold drop_selected5 items this) = included3StarItems this"
  by (induction items arbitrary: this) (auto simp: drop_selected5_fields)

lemma fold_drop_selected4:
  "set (selected4StarItems (fold drop_selected4 items this)) = set (selected4StarItems this) - set items
   \<and> selected5StarItems (fold drop_selected4 items this) = selected5StarItems this
   \<and> included5StarItems (fold drop_selected4 items this) = included5StarItems this
   \<and> included4StarItems (fold drop_selected4 items this) = included4StarItems this
   \<and> included3StarItems (fold drop_selected4 items this) = included3StarItems this"
  by (induction items arbitrary: this) (auto simp: drop_selected4_fields)

lemma validateUpItems_sets:
  "set (selected5StarItems (validateUpItems this))
     = set (selected5StarItems this) \<inter> set (included5StarItems this)"
  "set (selected4StarItems (validateUpItems this))
     = set (selected4StarItems this) \<inter> set (included4StarItems this)"
  "included5StarItems (validateUpItems this) = included5StarItems this"
  "included4StarItems (validateUpItems this) = included4StarItems this"
  "included3StarItems (validateUpItems this) = included3StarItems this"
  by (auto simp: validateUpItems_def Let_def set_fold_set_delete filter_empty_conv)

lemma removeIncludedItem_sets:
  "set (selected5StarItems (removeIncludedItem itemName r this))
     = (if r = 5 then set (selected5StarItems this) - {itemName} else set (selected5StarItems this))"
  "set (selected4StarItems (removeIncludedItem itemName r this))
     = (if r = 4 then set (selected4StarItems this) - {itemName} else set (selected4StarItems this))"
  "set (included5StarItems (removeIncludedItem itemName r this))
     = (if r = 5 then set (included5StarItems this) - {itemName} else set (included5StarItems this))"
  "set (included4StarItems (removeIncludedItem itemName r this))
     = (if r = 4 then set (included4StarItems this) - {itemName} else set (included4StarItems this))"
  by (auto simp: removeIncludedItem_def Let_def set_set_delete)

lemma clearAllIncludedItems_sets:
  "set (selected5StarItems (clearAllIncludedItems r this))
     = (if r = 5 then set (selected5StarItems this) - set (included5StarItems this)
        else set (selected5StarItems this))"
  "set (selected4StarItems (clearAllIncludedItems r this))
     = (if r = 4 then set (selected4StarItems this) - set (included4StarItems this)
        else set (selected4StarItems this))"
  "included5StarItems (clearAllIncludedItems r this)
     = (if r = 5 then [] else included5StarItems this)"
  "included4StarItems (clearAllIncludedItems r this)
     = (if r = 4 then [] else included4StarItems this)"
  by (simp_all add: clearAllIncludedItems_def Let_def fold_drop_selected5 fold_drop_selected4)

lemma stale_banner_opened:
  "setBannerIncludedItems stale_banner (setBannerUpItems stale_banner empty_manager)
     = stale_manager"
  by (simp add: setBannerIncludedItems_def setBannerUpItems_def stale_banner_def demo_banner_def
        empty_manager_def stale_manager_def set_add_def)

text \<open>
  C10, as stated, fails for two of the three operations: \<^verbatim>\<open>removeIncludedItem\<close>
  and \<^verbatim>\<open>clearAllIncludedItems\<close> repair only the items they remove. After a banner
  whose UP item Z is not included has been opened for editing, removing the
  included item B, or clearing the 4-star pool, leaves Z in the 5-star UP set,
  outside the 5-star included set.
\<close>

theorem stale_up_item_survives_removal:
  "setBannerIncludedItems stale_banner (setBannerUpItems stale_banner empty_manager)
     = stale_manager
   \<and> removeIncludedItem ''B'' 5 stale_manager =
       \<lparr> selected5StarItems = [''A'', ''Z''], selected4StarItems = [''C''],
         included5StarItems = [''A''], included4StarItems = [''C'', ''D''],
         included3StarItems = [''E''] \<rparr>
   \<and> \<not> up_items_included (removeIncludedItem ''B'' 5 stale_manager)
   \<and> clearAllIncludedItems 4 stale_manager =
       \<lparr> selected5StarItems = [''A'', ''Z''], selected4StarItems = [],
         included5StarItems = [''A'', ''B''], included4StarItems = [],
         included3StarItems = [''E''] \<rparr>
   \<and> \<not> up_items_included (clearAllIncludedItems 4 stale_manager)"
  using stale_banner_opened
  by (simp add: removeIncludedItem_def clearAllIncludedItems_def drop_selected4_def
        stale_manager_def set_delete_def up_items_included_def)

text \<open>
  C10, amended. The containment of the UP sets in the included sets is kept by
  repair, with no rejection. \<^verbatim>\<open>removeIncludedItem\<close> deletes the item from the
  tier's included set and from the tier's UP set; \<^verbatim>\<open>clearAllIncludedItems\<close>
  empties the tier's included set and deletes every item that was in it from the
  tier's UP set; \<^verbatim>\<open>validateUpItems\<close> deletes from each UP set exactly the items
  that are not in the tier's included set. So the UP sets are subsets of their
  included sets after \<^verbatim>\<open>validateUpItems\<close> from any state, and after the other two
  operations whenever they were before.
\<close>

theorem up_items_included_maintained:
  "up_items_included (validateUpItems this)
   \<and> (up_items_included this \<longrightarrow> up_items_included (removeIncludedItem itemName r this))
   \<and> (up_items_included this \<longrightarrow> up_items_included (clearAllIncludedItems r this))
   \<and> (r = 5 \<longrightarrow> itemName \<notin> set (included5StarItems (removeIncludedItem itemName r this))
                \<and> itemName \<notin> set (selected5StarItems (removeIncludedItem itemName r this)))
   \<and> (r = 4 \<longrightarrow> itemName \<notin> set (included4StarItems (removeIncludedItem itemName r this))
                \<and> itemName \<notin> set (selected4StarItems (removeIncludedItem itemName r this)))
   \<and> (r = 5 \<longrightarrow> included5StarItems (clearAllIncludedItems r this) = []
                \<and> set (selected5StarItems (clearAllIncludedItems r this))
                    = set (selected5StarItems this) - set (included5StarItems this))
   \<and> (r = 4 \<longrightarrow> included4StarItems (clearAllIncludedItems r this) = []
                \<and> set (selected4StarItems (clearAllIncludedItems r this))
                    = set (selected4StarItems this) - set (included4StarItems this))
   \<and> set (selected5StarItems (validateUpItems this))
       = set (selected5StarItems this) \<inter> set (included5StarItems this)
   \<and> set (selected4StarItems (validateUpItems this))
       = set (selected4StarItems this) \<inter> set (included4StarItems this)"
proof -
  have v: "up_items_included (validateUpItems this)"
    by (simp add: up_items_included_def validateUpItems_sets)
  have r: "up_items_included this \<longrightarrow> up_items_included (removeIncludedItem itemName r this)"
    by (auto simp: up_items_included_def removeIncludedItem_sets)
  have c: "up_items_included this \<longrightarrow> up_items_included (clearAllIncludedItems r this)"
    by (auto simp: up_items_included_def clearAllIncludedItems_sets)
  from v r c show ?thesis
    by (simp add: removeIncludedItem_sets clearAllIncludedItems_sets validateUpItems_sets)
qed

theorem up_items_included_maintained_witness:
  "up_items_included demo_manager
   \<and> removeIncludedItem ''A'' 5 demo_manager =
       \<lparr> selected5StarItems = [], selected4StarItems = [''C''],
         included5StarItems = [''B''], included4StarItems = [''C'', ''D''],
         included3StarItems = [''E''] \<rparr>
   \<and> up_items_included (removeIncludedItem ''A'' 5 demo_manager)
   \<and> clearAllIncludedItems 4 demo_manager =
       \<lparr> selected5StarItems = [''A''], selected4StarItems = [],
         included5StarItems = [''A'', ''B''], included4StarItems = [],
         included3StarItems = [''E''] \<rparr>
   \<and> up_items_included (clearAllIncludedItems 4 demo_manager)
   \<and> \<not> up_items_included stale_manager
   \<and> validateUpItems stale_manager = demo_manager
   \<and> up_items_included (validateUpItems stale_manager)"
proof -
  have inv: "up_items_included demo_manager"
    by (simp add: up_items_included_def demo_manager_def)
  have rm: "removeIncludedItem ''A'' 5 demo_manager =
       \<lparr> selected5StarItems = [], selected4StarItems = [''C''],
         included5StarItems = [''B''], included4StarItems = [''C'', ''D''],
         included3StarItems = [''E''] \<rparr>"
    by (simp add: removeIncludedItem_def demo_manager_def set_delete_def)
  have cl: "clearAllIncludedItems 4 demo_manager =
       \<lparr> selected5StarItems = [''A''], selected4StarItems = [],
         included5StarItems = [''A'', ''B''], included4StarItems = [],
         included3StarItems = [''E''] \<rparr>"
    by (simp add: clearAllIncludedItems_def demo_manager_def drop_selected4_def set_delete_def)
  have stale: "\<not> up_items_included stale_manager"
    by (simp add: up_items_included_def stale_manager_def)
  have va: "validateUpItems stale_manager = demo_manager"
    by (simp add: validateUpItems_def stale_manager_def demo_manager_def set_delete_def)
  note t = up_items_included_maintained
  from t [of demo_manager "''A''" 5] inv
  have a: "up_items_included (removeIncludedItem ''A'' 5 demo_manager)" by blast
  from t [of demo_manager "''A''" 4] inv
  have b: "up_items_included (clearAllIncludedItems 4 demo_manager)" by blast
  from t [of stale_manager "''A''" 5]
  have c: "up_items_included (validateUpItems stale_manager)" by blast
  from inv rm a cl b stale va c show ?thesis by blast
qed

end
